theory Spec2Isabelle
  imports Main "HOL-Library.Word"
begin

unbundle bit_operations_syntax

section \<open>Machine types and error codes\<close>

text \<open>
  The library is written in C. Unsigned 8-, 32- and 64-bit values are words, so that
  shifts, masks and wrap-around are those of the machine. Signed 64-bit file offsets
  (\<open>int64_t\<close>) are modelled as \<open>int\<close>: every offset is a position in a file or a sum of a
  position and an element size below \<open>2 ^ 56\<close>, so no offset arithmetic wraps.
  C strings are the byte lists before their terminating NUL; a \<open>NULL\<close> pointer is \<open>None\<close>.
\<close>

type_synonym u8 = "8 word"
type_synonym u32 = "32 word"
type_synonym u64 = "64 word"

text \<open>The error codes of \<open>mkvtag_error.h\<close>; \<open>MKVTAG_OK\<close> is the \<open>Inr\<close> side of a result.\<close>

datatype error =
    ErrInvalidArg | ErrNoMemory | ErrIo | ErrNotOpen | ErrAlreadyOpen | ErrReadOnly
  | ErrNotEbml | ErrNotMkv | ErrCorrupt | ErrTruncated | ErrInvalidVint | ErrVintOverflow
  | ErrNoTags | ErrTagNotFound | ErrTagTooLarge
  | ErrNoSpace | ErrWriteFailed | ErrSeekFailed

section \<open>VINT codec (\<open>ebml_vint.c\<close>)\<close>

text \<open>The macros \<open>EBML_VINT_MAX_n = (1ULL << (7 * n)) - 2\<close> of \<open>ebml_vint.h\<close>.\<close>

definition EBML_VINT_MAX_1 :: u64 where "EBML_VINT_MAX_1 = push_bit 7 1 - 2"
definition EBML_VINT_MAX_2 :: u64 where "EBML_VINT_MAX_2 = push_bit 14 1 - 2"
definition EBML_VINT_MAX_3 :: u64 where "EBML_VINT_MAX_3 = push_bit 21 1 - 2"
definition EBML_VINT_MAX_4 :: u64 where "EBML_VINT_MAX_4 = push_bit 28 1 - 2"
definition EBML_VINT_MAX_5 :: u64 where "EBML_VINT_MAX_5 = push_bit 35 1 - 2"
definition EBML_VINT_MAX_6 :: u64 where "EBML_VINT_MAX_6 = push_bit 42 1 - 2"
definition EBML_VINT_MAX_7 :: u64 where "EBML_VINT_MAX_7 = push_bit 49 1 - 2"
definition EBML_VINT_MAX_8 :: u64 where "EBML_VINT_MAX_8 = push_bit 56 1 - 2"

definition ebml_vint_size :: "u64 \<Rightarrow> nat" where
  "ebml_vint_size v =
     (if v \<le> EBML_VINT_MAX_1 then 1
      else if v \<le> EBML_VINT_MAX_2 then 2
      else if v \<le> EBML_VINT_MAX_3 then 3
      else if v \<le> EBML_VINT_MAX_4 then 4
      else if v \<le> EBML_VINT_MAX_5 then 5
      else if v \<le> EBML_VINT_MAX_6 then 6
      else if v \<le> EBML_VINT_MAX_7 then 7
      else if v \<le> EBML_VINT_MAX_8 then 8
      else 0)"

definition ebml_vint_length :: "u8 \<Rightarrow> nat" where
  "ebml_vint_length b =
     (if b AND 0x80 \<noteq> 0 then 1
      else if b AND 0x40 \<noteq> 0 then 2
      else if b AND 0x20 \<noteq> 0 then 3
      else if b AND 0x10 \<noteq> 0 then 4
      else if b AND 0x08 \<noteq> 0 then 5
      else if b AND 0x04 \<noteq> 0 then 6
      else if b AND 0x02 \<noteq> 0 then 7
      else if b AND 0x01 \<noteq> 0 then 8
      else 0)"

text \<open>
  The loop \<open>for (i = length - 1; i >= 0; i--) { data[i] = value & 0xFF; value >>= 8; }\<close>
  used by every encoder: the \<open>n\<close> low bytes of the value, most significant first.
\<close>

fun be_bytes :: "nat \<Rightarrow> u64 \<Rightarrow> u8 list" where
  "be_bytes 0 v = []"
| "be_bytes (Suc n) v = be_bytes n (drop_bit 8 v) @ [ucast (v AND 0xFF)]"

text \<open>The \<open>switch (length)\<close> of \<open>ebml_vint_encode_fixed\<close> that selects \<open>max_value\<close>.\<close>

definition vint_max_of_length :: "nat \<Rightarrow> u64" where
  "vint_max_of_length len =
     (if len = 1 then EBML_VINT_MAX_1 else if len = 2 then EBML_VINT_MAX_2
      else if len = 3 then EBML_VINT_MAX_3 else if len = 4 then EBML_VINT_MAX_4
      else if len = 5 then EBML_VINT_MAX_5 else if len = 6 then EBML_VINT_MAX_6
      else if len = 7 then EBML_VINT_MAX_7 else EBML_VINT_MAX_8)"

definition ebml_vint_encode_fixed :: "u64 \<Rightarrow> nat \<Rightarrow> error + u8 list" where
  "ebml_vint_encode_fixed v len =
     (if len < 1 \<or> len > 8 then Inl ErrInvalidArg
      else if v > vint_max_of_length len then Inl ErrVintOverflow
      else let data = be_bytes len v
           in Inr (data[0 := (data ! 0) OR drop_bit (len - 1) 0x80]))"

definition ebml_vint_encode :: "u64 \<Rightarrow> error + u8 list" where
  "ebml_vint_encode v =
     (let len = ebml_vint_size v
      in if len = 0 then Inl ErrVintOverflow else ebml_vint_encode_fixed v len)"

text \<open>
  The accumulation loop \<open>result = (result << 8) | data[i]\<close> of the decoders and of the
  unsigned-integer reader.
\<close>

definition be_accum :: "u64 \<Rightarrow> u8 list \<Rightarrow> u64" where
  "be_accum r bs = foldl (\<lambda>r b. push_bit 8 r OR ucast b) r bs"

text \<open>
  \<open>ebml_vint_decode(data, size, &value, &bytes_read)\<close>: the list is the \<open>size\<close> available
  bytes; the result is the value and the number of bytes consumed.
\<close>

definition ebml_vint_decode :: "u8 list \<Rightarrow> error + (u64 \<times> nat)" where
  "ebml_vint_decode data =
     (if length data = 0 then Inl ErrTruncated
      else let len = ebml_vint_length (data ! 0)
           in if len = 0 then Inl ErrInvalidVint
              else if len > length data then Inl ErrTruncated
              else let mask = (ucast (drop_bit len (0xFF :: u32)) :: u8);
                       result = (ucast (data ! 0) :: u64) AND ucast mask
                   in Inr (be_accum result (take (len - 1) (drop 1 data)), len))"

definition ebml_id_decode :: "u8 list \<Rightarrow> error + (u32 \<times> nat)" where
  "ebml_id_decode data =
     (if length data = 0 then Inl ErrTruncated
      else let len = ebml_vint_length (data ! 0)
           in if len = 0 then Inl ErrInvalidVint
              else if len > 4 then Inl ErrVintOverflow
              else if len > length data then Inl ErrTruncated
              else Inr (foldl (\<lambda>r b. push_bit 8 r OR ucast b) 0 (take len data), len))"

definition ebml_id_size :: "u32 \<Rightarrow> nat" where
  "ebml_id_size i =
     (if i \<le> 0xFF then 1 else if i \<le> 0xFFFF then 2 else if i \<le> 0xFFFFFF then 3 else 4)"

definition ebml_id_encode :: "u32 \<Rightarrow> error + u8 list" where
  "ebml_id_encode i =
     (if i = 0 then Inl ErrInvalidVint
      else Inr (map ucast (be_bytes (ebml_id_size i) (ucast i))))"

definition ebml_vint_is_unknown :: "u64 \<Rightarrow> nat \<Rightarrow> bool" where
  "ebml_vint_is_unknown v len = (1 \<le> len \<and> len \<le> 8 \<and> v = mask (7 * len))"

section \<open>Element writer (\<open>ebml_writer.c\<close>)\<close>

text \<open>
  A \<open>dyn_buffer_t\<close> is the list of bytes appended so far. Allocation never fails in the
  model, so \<open>buffer_append\<close> is list append; a writer returns the extended buffer or the
  error code (the C callers discard the buffer on every error).
\<close>

definition ok_bind :: "error + 'a \<Rightarrow> ('a \<Rightarrow> error + 'b) \<Rightarrow> error + 'b" where
  "ok_bind m f = (case m of Inl e \<Rightarrow> Inl e | Inr x \<Rightarrow> f x)"

lemma ok_bind_simps [simp]:
  "ok_bind (Inl e) f = Inl e" "ok_bind (Inr x) f = f x"
  by (simp_all add: ok_bind_def)

lemma ok_bind_cong [fundef_cong]:
  "m = m' \<Longrightarrow> (\<And>x. m' = Inr x \<Longrightarrow> f x = f' x) \<Longrightarrow> ok_bind m f = ok_bind m' f'"
  by (cases m') (simp_all add: ok_bind_def)

definition uint_data_size :: "u64 \<Rightarrow> nat" where
  "uint_data_size v =
     (if v = 0 then 0
      else if v \<le> 0xFF then 1
      else if v \<le> 0xFFFF then 2
      else if v \<le> 0xFFFFFF then 3
      else if v \<le> 0xFFFFFFFF then 4
      else if v \<le> 0xFFFFFFFFFF then 5
      else if v \<le> 0xFFFFFFFFFFFF then 6
      else if v \<le> 0xFFFFFFFFFFFFFF then 7
      else 8)"

definition write_id :: "u8 list \<Rightarrow> u32 \<Rightarrow> error + u8 list" where
  "write_id buf i = ok_bind (ebml_id_encode i) (\<lambda>id_bytes. Inr (buf @ id_bytes))"

definition write_size :: "u8 list \<Rightarrow> u64 \<Rightarrow> error + u8 list" where
  "write_size buf sz = ok_bind (ebml_vint_encode sz) (\<lambda>size_bytes. Inr (buf @ size_bytes))"

definition ebml_write_master_element_header :: "u8 list \<Rightarrow> u32 \<Rightarrow> u64 \<Rightarrow> error + u8 list" where
  "ebml_write_master_element_header buf i content_size =
     ok_bind (write_id buf i) (\<lambda>buf. write_size buf content_size)"

definition ebml_write_uint_element :: "u8 list \<Rightarrow> u32 \<Rightarrow> u64 \<Rightarrow> error + u8 list" where
  "ebml_write_uint_element buf i v =
     (let data_size = (if uint_data_size v = 0 then 1 else uint_data_size v)
      in ok_bind (write_id buf i) (\<lambda>buf.
         ok_bind (write_size buf (of_nat data_size)) (\<lambda>buf.
         Inr (buf @ be_bytes data_size v))))"

text \<open>
  \<open>ebml_write_int_element\<close>: the \<open>int64_t\<close> argument is the 64-bit word read as two's
  complement (\<open>sint\<close>); \<open>(uint64_t)value\<close> is the same word.
\<close>

definition int_data_size :: "u64 \<Rightarrow> nat" where
  "int_data_size v =
     (if sint v = 0 then 1
      else if - 128 \<le> sint v \<and> sint v \<le> 127 then 1
      else if - 32768 \<le> sint v \<and> sint v \<le> 32767 then 2
      else if - 8388608 \<le> sint v \<and> sint v \<le> 8388607 then 3
      else if - 2147483648 \<le> sint v \<and> sint v \<le> 2147483647 then 4
      else 8)"

definition ebml_write_int_element :: "u8 list \<Rightarrow> u32 \<Rightarrow> u64 \<Rightarrow> error + u8 list" where
  "ebml_write_int_element buf i v =
     (let data_size = int_data_size v
      in ok_bind (write_id buf i) (\<lambda>buf.
         ok_bind (write_size buf (of_nat data_size)) (\<lambda>buf.
         Inr (buf @ be_bytes data_size v))))"

definition ebml_write_string_element :: "u8 list \<Rightarrow> u32 \<Rightarrow> u8 list \<Rightarrow> error + u8 list" where
  "ebml_write_string_element buf i str =
     ok_bind (write_id buf i) (\<lambda>buf.
     ok_bind (write_size buf (of_nat (length str))) (\<lambda>buf.
     Inr (buf @ str)))"

definition ebml_write_binary_element :: "u8 list \<Rightarrow> u32 \<Rightarrow> u8 list \<Rightarrow> error + u8 list" where
  "ebml_write_binary_element buf i data =
     ok_bind (write_id buf i) (\<lambda>buf.
     ok_bind (write_size buf (of_nat (length data))) (\<lambda>buf.
     Inr (buf @ data)))"

definition EBML_ID_VOID :: u32 where "EBML_ID_VOID = 0xEC"

text \<open>
  The loop \<open>for (vint_len = 1; vint_len <= 8; vint_len++)\<close> of \<open>ebml_write_void_element\<close>.
  Both returning branches write the size with \<open>ebml_vint_encode_fixed\<close> at the current
  width, followed by \<open>content_size\<close> zero bytes.
\<close>

function void_size_loop :: "u8 list \<Rightarrow> u64 \<Rightarrow> nat \<Rightarrow> error + u8 list" where
  "void_size_loop buf total_size vint_len =
     (if vint_len > 8 then Inl ErrVintOverflow
      else let content_size = total_size - 1 - of_nat vint_len;
               needed = ebml_vint_size content_size
           in if needed = vint_len then
                ok_bind (ebml_vint_encode_fixed content_size vint_len) (\<lambda>size_bytes.
                Inr (buf @ size_bytes @ replicate (unat content_size) 0))
              else if needed < vint_len then
                ok_bind (ebml_vint_encode_fixed content_size vint_len) (\<lambda>size_bytes.
                Inr (buf @ size_bytes @ replicate (unat content_size) 0))
              else void_size_loop buf total_size (vint_len + 1))"
  by pat_completeness auto
termination
  by (relation "measure (\<lambda>(buf, total_size, vint_len). 9 - vint_len)") auto

declare void_size_loop.simps [simp del]

definition ebml_write_void_element :: "u8 list \<Rightarrow> u64 \<Rightarrow> error + u8 list" where
  "ebml_write_void_element buf total_size =
     (if total_size < 2 then Inl ErrInvalidArg
      else void_size_loop (buf @ [ucast EBML_ID_VOID]) total_size 1)"

definition ebml_master_header_size :: "u32 \<Rightarrow> u64 \<Rightarrow> nat" where
  "ebml_master_header_size i content_size = ebml_id_size i + ebml_vint_size content_size"

section \<open>Tag model (\<open>mkvtag_types.h\<close>)\<close>

text \<open>
  The C linked lists (\<open>next\<close> pointers) are lists, in list order. A \<open>char *\<close> that may be
  \<open>NULL\<close> is an optional byte list, \<open>binary\<close> with \<open>binary_size\<close> an optional byte list
  (\<open>None\<close> for \<open>NULL\<close>). \<open>is_default\<close> is a C \<open>int\<close>. The target type is the
  \<open>mkvtag_target_type_t\<close> enumeration; its enumerators are all positive, so it is held
  as an unsigned 32-bit value.
\<close>

datatype simple_tag = SimpleTag
  (name: "u8 list option")
  (val: "u8 list option")
  (binary: "u8 list option")
  (language: "u8 list option")
  (is_default: int)
  (nested: "simple_tag list")

record tag =
  target_type :: u32
  target_type_str :: "u8 list option"
  track_uids :: "u64 list"
  edition_uids :: "u64 list"
  chapter_uids :: "u64 list"
  attachment_uids :: "u64 list"
  simple_tags :: "simple_tag list"

type_synonym collection = "tag list"

definition MKVTAG_TARGET_ALBUM :: u32 where "MKVTAG_TARGET_ALBUM = 50"

definition MKV_ID_TAGS :: u32 where "MKV_ID_TAGS = 0x1254C367"
definition MKV_ID_TAG :: u32 where "MKV_ID_TAG = 0x7373"
definition MKV_ID_TARGETS :: u32 where "MKV_ID_TARGETS = 0x63C0"
definition MKV_ID_TARGET_TYPE_VALUE :: u32 where "MKV_ID_TARGET_TYPE_VALUE = 0x68CA"
definition MKV_ID_TARGET_TYPE :: u32 where "MKV_ID_TARGET_TYPE = 0x63CA"
definition MKV_ID_TAG_TRACK_UID :: u32 where "MKV_ID_TAG_TRACK_UID = 0x63C5"
definition MKV_ID_TAG_EDITION_UID :: u32 where "MKV_ID_TAG_EDITION_UID = 0x63C9"
definition MKV_ID_TAG_CHAPTER_UID :: u32 where "MKV_ID_TAG_CHAPTER_UID = 0x63C4"
definition MKV_ID_TAG_ATTACHMENT_UID :: u32 where "MKV_ID_TAG_ATTACHMENT_UID = 0x63C6"
definition MKV_ID_SIMPLE_TAG :: u32 where "MKV_ID_SIMPLE_TAG = 0x67C8"
definition MKV_ID_TAG_NAME :: u32 where "MKV_ID_TAG_NAME = 0x45A3"
definition MKV_ID_TAG_LANGUAGE :: u32 where "MKV_ID_TAG_LANGUAGE = 0x447A"
definition MKV_ID_TAG_LANGUAGE_BCP47 :: u32 where "MKV_ID_TAG_LANGUAGE_BCP47 = 0x447B"
definition MKV_ID_TAG_DEFAULT :: u32 where "MKV_ID_TAG_DEFAULT = 0x4484"
definition MKV_ID_TAG_STRING :: u32 where "MKV_ID_TAG_STRING = 0x4487"
definition MKV_ID_TAG_BINARY :: u32 where "MKV_ID_TAG_BINARY = 0x4485"
definition MKV_ID_SEGMENT :: u32 where "MKV_ID_SEGMENT = 0x18538067"
definition MKV_ID_SEEKHEAD :: u32 where "MKV_ID_SEEKHEAD = 0x114D9B74"
definition MKV_ID_SEEK :: u32 where "MKV_ID_SEEK = 0x4DBB"
definition MKV_ID_SEEK_ID :: u32 where "MKV_ID_SEEK_ID = 0x53AB"
definition MKV_ID_SEEK_POSITION :: u32 where "MKV_ID_SEEK_POSITION = 0x53AC"

lemmas mkv_ids =
  EBML_ID_VOID_def MKV_ID_TAGS_def MKV_ID_TAG_def MKV_ID_TARGETS_def
  MKV_ID_TARGET_TYPE_VALUE_def MKV_ID_TARGET_TYPE_def MKV_ID_TAG_TRACK_UID_def
  MKV_ID_TAG_EDITION_UID_def MKV_ID_TAG_CHAPTER_UID_def MKV_ID_TAG_ATTACHMENT_UID_def
  MKV_ID_SIMPLE_TAG_def MKV_ID_TAG_NAME_def MKV_ID_TAG_LANGUAGE_def
  MKV_ID_TAG_LANGUAGE_BCP47_def MKV_ID_TAG_DEFAULT_def MKV_ID_TAG_STRING_def
  MKV_ID_TAG_BINARY_def MKV_ID_SEGMENT_def MKV_ID_SEEKHEAD_def MKV_ID_SEEK_def
  MKV_ID_SEEK_ID_def MKV_ID_SEEK_POSITION_def

section \<open>Tag serialization (\<open>mkv_tags.c\<close>)\<close>

text \<open>
  The serializers take a collection, a tag or a simple tag as a value, so the
  \<open>InvalidArg\<close> that each C function returns for a \<open>NULL\<close> argument has no counterpart here;
  a \<open>NULL\<close> string field is the option \<open>None\<close>. Like the writers they call, they do not
  model the \<open>NoMemory\<close> of a failed \<open>buffer_append\<close>. What is proved about a successful
  serialization is therefore about a run in which every allocation succeeds.

  \<open>opt_elem\<close> is the pattern \<open>if (p) { err = write(&content, ...); if (err) return err; }\<close>:
  an absent field writes nothing and is no error.
\<close>

definition opt_elem :: "'a option \<Rightarrow> ('a \<Rightarrow> error + u8 list) \<Rightarrow> u8 list \<Rightarrow> error + u8 list" where
  "opt_elem p w content = (case p of None \<Rightarrow> Inr content | Some x \<Rightarrow> w x)"

text \<open>
  The leaf children of a SimpleTag, in the order \<open>serialize_simple_tag\<close> writes them into
  its local \<open>content\<close> buffer: TagName, TagLanguage, TagDefault, TagString, TagBinary.
\<close>

definition simple_tag_fields :: "simple_tag \<Rightarrow> error + u8 list" where
  "simple_tag_fields st =
     ok_bind (opt_elem (name st) (ebml_write_string_element [] MKV_ID_TAG_NAME) []) (\<lambda>content.
     ok_bind (opt_elem (language st) (ebml_write_string_element content MKV_ID_TAG_LANGUAGE) content) (\<lambda>content.
     ok_bind (if is_default st = 0 then ebml_write_uint_element content MKV_ID_TAG_DEFAULT 0
              else Inr content) (\<lambda>content.
     ok_bind (opt_elem (val st) (ebml_write_string_element content MKV_ID_TAG_STRING) content) (\<lambda>content.
     (case binary st of
        Some b \<Rightarrow> if length b > 0 then ebml_write_binary_element content MKV_ID_TAG_BINARY b
                  else Inr content
      | None \<Rightarrow> Inr content)))))"

fun serialize_simple_tag :: "simple_tag \<Rightarrow> u8 list \<Rightarrow> error + u8 list"
  and serialize_simple_tag_list :: "simple_tag list \<Rightarrow> u8 list \<Rightarrow> error + u8 list" where
  "serialize_simple_tag (SimpleTag nm vl bin lang dflt nst) buf =
     ok_bind (simple_tag_fields (SimpleTag nm vl bin lang dflt nst)) (\<lambda>content.
     ok_bind (serialize_simple_tag_list nst content) (\<lambda>content.
     ok_bind (ebml_write_master_element_header buf MKV_ID_SIMPLE_TAG (of_nat (length content)))
       (\<lambda>buf. Inr (buf @ content))))"
| "serialize_simple_tag_list [] content = Inr content"
| "serialize_simple_tag_list (st # sts) content =
     ok_bind (serialize_simple_tag st content) (\<lambda>content. serialize_simple_tag_list sts content)"

text \<open>The \<open>for\<close> loops over a UID array of \<open>serialize_targets\<close>.\<close>

fun write_uid_elements :: "u32 \<Rightarrow> u64 list \<Rightarrow> u8 list \<Rightarrow> error + u8 list" where
  "write_uid_elements i [] content = Inr content"
| "write_uid_elements i (u # us) content =
     ok_bind (ebml_write_uint_element content i u) (\<lambda>content. write_uid_elements i us content)"

definition serialize_targets :: "tag \<Rightarrow> u8 list \<Rightarrow> error + u8 list" where
  "serialize_targets t buf =
     ok_bind (ebml_write_uint_element [] MKV_ID_TARGET_TYPE_VALUE (ucast (target_type t))) (\<lambda>content.
     ok_bind (opt_elem (target_type_str t) (ebml_write_string_element content MKV_ID_TARGET_TYPE) content) (\<lambda>content.
     ok_bind (write_uid_elements MKV_ID_TAG_TRACK_UID (track_uids t) content) (\<lambda>content.
     ok_bind (write_uid_elements MKV_ID_TAG_EDITION_UID (edition_uids t) content) (\<lambda>content.
     ok_bind (write_uid_elements MKV_ID_TAG_CHAPTER_UID (chapter_uids t) content) (\<lambda>content.
     ok_bind (write_uid_elements MKV_ID_TAG_ATTACHMENT_UID (attachment_uids t) content) (\<lambda>content.
     ok_bind (ebml_write_master_element_header buf MKV_ID_TARGETS (of_nat (length content)))
       (\<lambda>buf. Inr (buf @ content))))))))"

definition serialize_tag :: "tag \<Rightarrow> u8 list \<Rightarrow> error + u8 list" where
  "serialize_tag t buf =
     ok_bind (serialize_targets t []) (\<lambda>content.
     ok_bind (serialize_simple_tag_list (simple_tags t) content) (\<lambda>content.
     ok_bind (ebml_write_master_element_header buf MKV_ID_TAG (of_nat (length content)))
       (\<lambda>buf. Inr (buf @ content))))"

fun mkv_tags_serialize :: "collection \<Rightarrow> u8 list \<Rightarrow> error + u8 list" where
  "mkv_tags_serialize [] buf = Inr buf"
| "mkv_tags_serialize (t # ts) buf =
     ok_bind (serialize_tag t buf) (\<lambda>buf. mkv_tags_serialize ts buf)"

text \<open>
  The prologue shared by \<open>write_tags_at\<close> and \<open>try_append_tags\<close>: serialize the content,
  then build the complete Tags element (header followed by the content).
\<close>

definition build_tags_element :: "collection \<Rightarrow> error + u8 list" where
  "build_tags_element c =
     ok_bind (mkv_tags_serialize c []) (\<lambda>content.
     ok_bind (ebml_write_master_element_header [] MKV_ID_TAGS (of_nat (length content)))
       (\<lambda>tags_buf. Inr (tags_buf @ content)))"

section \<open>Buffered stream\<close>

text \<open>
  Modelled from the spec: the buffered stream of section 4.A. The sources under \<open>src\<close>
  call a stream library (\<open>tag_common/file_io.h\<close>) whose code is not part of them; an older
  in-tree \<open>file_io.c\<close> has the same operations with other signatures. The model is the
  stream over an in-memory file: the bytes, the logical position and the writable flag.
  A seek to a negative target fails with \<open>SeekFailed\<close>, a read that finds fewer bytes than
  asked for consumes what is there and fails with \<open>Truncated\<close>, a write on a read-only
  handle fails with \<open>ReadOnly\<close>; a write past the end extends the file (a gap reads as
  zeros). Failures of the operating system and of the allocator are not modelled.
\<close>

record file_handle =
  fbytes :: "u8 list"
  fpos :: int
  fwritable :: bool

type_synonym 'a io = "(error + 'a) \<times> file_handle"

definition file_size :: "file_handle \<Rightarrow> int" where
  "file_size h = int (length (fbytes h))"

definition file_tell :: "file_handle \<Rightarrow> int" where
  "file_tell h = fpos h"

definition file_seek :: "file_handle \<Rightarrow> int \<Rightarrow> unit io" where
  "file_seek h off = (if off < 0 then (Inl ErrSeekFailed, h) else (Inr (), h\<lparr>fpos := off\<rparr>))"

definition file_read :: "file_handle \<Rightarrow> nat \<Rightarrow> (u8 list) io" where
  "file_read h n =
     (let avail = drop (nat (fpos h)) (fbytes h)
      in if length avail < n then (Inl ErrTruncated, h\<lparr>fpos := max (fpos h) (file_size h)\<rparr>)
         else (Inr (take n avail), h\<lparr>fpos := fpos h + int n\<rparr>))"

definition file_write :: "file_handle \<Rightarrow> u8 list \<Rightarrow> unit io" where
  "file_write h buf =
     (if \<not> fwritable h then (Inl ErrReadOnly, h)
      else let p = nat (fpos h);
               padded = fbytes h @ replicate (p - length (fbytes h)) 0
           in (Inr (), h\<lparr>fbytes := take p padded @ buf @ drop (p + length buf) padded,
                          fpos := fpos h + int (length buf)\<rparr>))"

definition file_sync :: "file_handle \<Rightarrow> unit io" where
  "file_sync h = (Inr (), h)"

section \<open>Element reader (\<open>ebml_reader.c\<close>)\<close>

record ebml_element =
  elem_id :: u32
  elem_size :: u64
  data_offset :: int
  end_offset :: int
  size_length :: nat
  id_length :: nat
  is_unknown_size :: bool

definition EBML_SIZE_UNKNOWN :: u64 where "EBML_SIZE_UNKNOWN = - 1"

text \<open>
  \<open>ebml_read_element_header\<close> reads the ID and the size in the same way: one byte, the
  length from \<open>ebml_vint_length\<close> (rejected when 0 or above the maximum), then the
  remaining \<open>length - 1\<close> bytes. \<open>read_vint_bytes\<close> is that shared part; every failed read
  is reported as \<open>Truncated\<close>.
\<close>

definition read_vint_bytes :: "nat \<Rightarrow> file_handle \<Rightarrow> (u8 list) io" where
  "read_vint_bytes max_len h =
     (case file_read h 1 of
        (Inl e, h1) \<Rightarrow> (Inl ErrTruncated, h1)
      | (Inr first, h1) \<Rightarrow>
          let len = ebml_vint_length (first ! 0)
          in if len = 0 \<or> len > max_len then (Inl ErrInvalidVint, h1)
             else if len > 1 then
               (case file_read h1 (len - 1) of
                  (Inl e, h2) \<Rightarrow> (Inl ErrTruncated, h2)
                | (Inr rest, h2) \<Rightarrow> (Inr (first @ rest), h2))
             else (Inr first, h1))"

definition ebml_read_element_header :: "file_handle \<Rightarrow> ebml_element io" where
  "ebml_read_element_header h =
     (if file_tell h < 0 then (Inl ErrIo, h)
      else case read_vint_bytes 4 h of
        (Inl e, h1) \<Rightarrow> (Inl e, h1)
      | (Inr id_bytes, h1) \<Rightarrow>
          (case ebml_id_decode id_bytes of
             Inl e \<Rightarrow> (Inl e, h1)
           | Inr (eid, _) \<Rightarrow>
               (case read_vint_bytes 8 h1 of
                  (Inl e, h2) \<Rightarrow> (Inl e, h2)
                | (Inr size_bytes, h2) \<Rightarrow>
                    (case ebml_vint_decode size_bytes of
                       Inl e \<Rightarrow> (Inl e, h2)
                     | Inr (sz, _) \<Rightarrow>
                         let unknown = ebml_vint_is_unknown sz (length size_bytes)
                         in (Inr \<lparr>elem_id = eid,
                                  elem_size = (if unknown then EBML_SIZE_UNKNOWN else sz),
                                  data_offset = file_tell h2,
                                  end_offset = (if unknown then file_size h2
                                                else file_tell h2 + sint sz),
                                  size_length = length size_bytes,
                                  id_length = length id_bytes,
                                  is_unknown_size = unknown\<rparr>, h2)))))"

definition ebml_peek_element_header :: "file_handle \<Rightarrow> ebml_element io" where
  "ebml_peek_element_header h =
     (let pos = file_tell h
      in case ebml_read_element_header h of
           (r, h1) \<Rightarrow> (r, snd (file_seek h1 pos)))"

definition ebml_skip_element :: "file_handle \<Rightarrow> ebml_element \<Rightarrow> unit io" where
  "ebml_skip_element h e =
     (if is_unknown_size e then (Inl ErrCorrupt, h) else file_seek h (end_offset e))"

definition ebml_at_element_end :: "file_handle \<Rightarrow> ebml_element \<Rightarrow> bool" where
  "ebml_at_element_end h parent = (file_tell h \<ge> end_offset parent)"

definition ebml_read_uint :: "file_handle \<Rightarrow> ebml_element \<Rightarrow> u64 io" where
  "ebml_read_uint h e =
     (if elem_size e > 8 then (Inl ErrVintOverflow, h)
      else case file_seek h (data_offset e) of
        (Inl err, h1) \<Rightarrow> (Inl err, h1)
      | (Inr _, h1) \<Rightarrow>
          if elem_size e = 0 then (Inr 0, h1)
          else (case file_read h1 (unat (elem_size e)) of
                  (Inl err, h2) \<Rightarrow> (Inl err, h2)
                | (Inr buffer, h2) \<Rightarrow> (Inr (be_accum 0 buffer), h2)))"

text \<open>
  A C string read back from a buffer ends at its first NUL byte; this also covers the
  loop of \<open>ebml_read_string\<close> that trims the trailing NUL padding.
\<close>

definition c_str :: "u8 list \<Rightarrow> u8 list" where
  "c_str buffer = takeWhile (\<lambda>b. b \<noteq> 0) buffer"

definition ebml_read_string :: "file_handle \<Rightarrow> ebml_element \<Rightarrow> nat \<Rightarrow> (u8 list) io" where
  "ebml_read_string h e buffer_size =
     (if buffer_size = 0 then (Inl ErrInvalidArg, h)
      else if unat (elem_size e) \<ge> buffer_size then (Inl ErrTagTooLarge, h)
      else case file_seek h (data_offset e) of
        (Inl err, h1) \<Rightarrow> (Inl err, h1)
      | (Inr _, h1) \<Rightarrow>
          if elem_size e = 0 then (Inr [], h1)
          else (case file_read h1 (unat (elem_size e)) of
                  (Inl err, h2) \<Rightarrow> (Inl err, h2)
                | (Inr buffer, h2) \<Rightarrow> (Inr (c_str buffer), h2)))"

text \<open>\<open>alloc_size = (size_t)element->size + 1\<close> wraps to 0 for an unknown size.\<close>

definition ebml_read_string_alloc :: "file_handle \<Rightarrow> ebml_element \<Rightarrow> (u8 list) io" where
  "ebml_read_string_alloc h e = ebml_read_string h e (unat (elem_size e + 1))"

definition ebml_read_binary :: "file_handle \<Rightarrow> ebml_element \<Rightarrow> nat \<Rightarrow> (u8 list) io" where
  "ebml_read_binary h e buffer_size =
     (case file_seek h (data_offset e) of
        (Inl err, h1) \<Rightarrow> (Inl err, h1)
      | (Inr _, h1) \<Rightarrow>
          let to_read = (if unat (elem_size e) < buffer_size then unat (elem_size e)
                         else buffer_size)
          in file_read h1 to_read)"

text \<open>
  \<open>ebml_read_binary_alloc\<close> yields the data pointer: \<open>None\<close> is the \<open>NULL\<close> it stores for an
  empty element. For an element of unknown size, \<open>element->size\<close> is \<open>UINT64_MAX\<close> and
  \<open>malloc((size_t)element->size)\<close> fails: the function returns \<open>NoMemory\<close> before it seeks,
  and the stream stays where it was.
\<close>

definition ebml_read_binary_alloc :: "file_handle \<Rightarrow> ebml_element \<Rightarrow> (u8 list option) io" where
  "ebml_read_binary_alloc h e =
     (if elem_size e = 0 then (Inr None, h)
      else if elem_size e = EBML_SIZE_UNKNOWN then (Inl ErrNoMemory, h)
      else case ebml_read_binary h e (unat (elem_size e)) of
        (Inl err, h1) \<Rightarrow> (Inl err, h1)
      | (Inr buffer, h1) \<Rightarrow> (Inr (Some buffer), h1))"

section \<open>VINT round trip\<close>

lemma EBML_VINT_MAX_values:
  "EBML_VINT_MAX_1 = 126" "EBML_VINT_MAX_2 = 16382" "EBML_VINT_MAX_3 = 2097150"
  "EBML_VINT_MAX_4 = 268435454" "EBML_VINT_MAX_5 = 34359738366"
  "EBML_VINT_MAX_6 = 4398046511102" "EBML_VINT_MAX_7 = 562949953421310"
  "EBML_VINT_MAX_8 = 72057594037927934"
  by (simp_all add: EBML_VINT_MAX_1_def EBML_VINT_MAX_2_def EBML_VINT_MAX_3_def
      EBML_VINT_MAX_4_def EBML_VINT_MAX_5_def EBML_VINT_MAX_6_def EBML_VINT_MAX_7_def
      EBML_VINT_MAX_8_def)

lemma ebml_vint_length_bits:
  "ebml_vint_length b =
     (if bit b 7 then 1 else if bit b 6 then 2 else if bit b 5 then 3 else if bit b 4 then 4
      else if bit b 3 then 5 else if bit b 2 then 6 else if bit b 1 then 7
      else if bit b 0 then 8 else 0)"
proof -
  have e: "(b AND 2 ^ n = 0) = (\<not> bit b n)" for n
    by (rule and_exp_eq_0_iff_not_bit)
  have "(b AND 0x80 = 0) = (\<not> bit b 7)" "(b AND 0x40 = 0) = (\<not> bit b 6)"
       "(b AND 0x20 = 0) = (\<not> bit b 5)" "(b AND 0x10 = 0) = (\<not> bit b 4)"
       "(b AND 0x08 = 0) = (\<not> bit b 3)" "(b AND 0x04 = 0) = (\<not> bit b 2)"
       "(b AND 0x02 = 0) = (\<not> bit b 1)" "(b AND 0x01 = 0) = (\<not> bit b 0)"
    using e[of 7] e[of 6] e[of 5] e[of 4] e[of 3] e[of 2] e[of 1] e[of 0] by simp_all
  then show ?thesis unfolding ebml_vint_length_def by simp
qed

lemma word_less_exp_no_high_bit:
  fixes v :: u64
  assumes "v < 2 ^ m"
  shows "bit v k \<longrightarrow> k < m"
proof (cases "m \<le> k")
  case True
  have "take_bit m v = v" using assms by (simp add: take_bit_eq_mask less_mask_eq)
  then have "bit v k = bit (take_bit m v) k" by simp
  also have "\<dots> = False" using True by (simp add: bit_take_bit_iff)
  finally show ?thesis by simp
next
  case False
  then show ?thesis by simp
qed



lemma be_accum_snoc: "be_accum r (xs @ [b]) = push_bit 8 (be_accum r xs) OR ucast b"
  by (simp add: be_accum_def)

lemma low_byte: "(ucast (ucast ((v::u64) AND 0xFF) :: u8) :: u64) = take_bit 8 v"
proof -
  have "(v AND 0xFF) = v AND mask 8" by (simp add: mask_eq_exp_minus_1)
  then show ?thesis
    by (simp add: take_bit_eq_mask) (rule bit_word_eqI, auto simp: bit_simps)
qed

lemma be_accum_be_bytes:
  "8 * n \<le> 64 \<Longrightarrow> be_accum r (be_bytes n v) = push_bit (8 * n) r OR take_bit (8 * n) v"
proof (induction n arbitrary: v)
  case 0
  then show ?case by (simp add: be_accum_def)
next
  case (Suc n)
  have ih: "be_accum r (be_bytes n (drop_bit 8 v)) = push_bit (8 * n) r OR take_bit (8 * n) (drop_bit 8 v)"
    using Suc by simp
  show ?case
    unfolding be_bytes.simps be_accum_snoc ih low_byte
    by (rule bit_word_eqI) (auto simp: bit_simps)
qed

lemma be_bytes_Suc_head:
  "be_bytes (Suc n) v = ucast (drop_bit (8 * n) v AND 0xFF) # be_bytes n v"
proof (induction n arbitrary: v)
  case 0
  then show ?case by simp
next
  case (Suc n)
  have "be_bytes (Suc (Suc n)) v = be_bytes (Suc n) (drop_bit 8 v) @ [ucast (v AND 0xFF)]"
    by simp
  also have "\<dots> = (ucast (drop_bit (8 * n) (drop_bit 8 v) AND 0xFF) # be_bytes n (drop_bit 8 v)) @ [ucast (v AND 0xFF)]"
    by (simp only: Suc)
  also have "\<dots> = ucast (drop_bit (8 * Suc n) v AND 0xFF) # be_bytes (Suc n) v"
    by (simp add: add.commute)
  finally show ?case .
qed

lemma length_be_bytes [simp]: "length (be_bytes n v) = n"
  by (induction n arbitrary: v) auto


lemma vint_length_cases:
  assumes "1 \<le> n" "n \<le> 8"
  obtains "n = 1" | "n = 2" | "n = 3" | "n = 4" | "n = 5" | "n = 6" | "n = 7" | "n = (8::nat)"
  using assms by arith

lemma vint_marker: "1 \<le> n \<Longrightarrow> n \<le> 8 \<Longrightarrow> drop_bit (n - 1) (0x80 :: u8) = 2 ^ (8 - n)"
  by (erule (1) vint_length_cases) simp_all

lemma vint_mask: "1 \<le> n \<Longrightarrow> n \<le> 8 \<Longrightarrow> (ucast (drop_bit n (0xFF :: u32)) :: u8) = mask (8 - n)"
  by (erule (1) vint_length_cases) (simp_all add: mask_eq_exp_minus_1)

lemma vint_max_of_length_less:
  "1 \<le> n \<Longrightarrow> n \<le> 8 \<Longrightarrow> v \<le> vint_max_of_length n \<Longrightarrow> v < 2 ^ (7 * n)"
  apply (erule (1) vint_length_cases)
  apply (simp_all add: vint_max_of_length_def EBML_VINT_MAX_values)
  apply unat_arith+
  done

lemma vint_first_byte_bits:
  fixes v :: u64
  assumes n: "1 \<le> n" "n \<le> 8" and v: "v < 2 ^ (7 * n)"
  defines "b0 \<equiv> (ucast (drop_bit (8 * (n - 1)) v AND 0xFF) :: u8) OR drop_bit (n - 1) 0x80"
  shows "bit b0 k = (k = 8 - n \<or> (k < 8 - n \<and> bit v (k + 8 * (n - 1))))"
proof -
  have m: "(drop_bit (8 * (n - 1)) v AND 0xFF) = drop_bit (8 * (n - 1)) v AND mask 8"
    by (simp add: mask_eq_exp_minus_1)
  show ?thesis
    unfolding b0_def vint_marker[OF n] m
    using word_less_exp_no_high_bit[OF v, of "k + 8 * (n - 1)"] n
    apply (simp only: bit_simps)
    apply (auto simp: add.commute)
    done
qed

lemma vint_first_byte_length:
  fixes v :: u64
  assumes n: "1 \<le> n" "n \<le> 8" and v: "v < 2 ^ (7 * n)"
  shows "ebml_vint_length ((ucast (drop_bit (8 * (n - 1)) v AND 0xFF) :: u8) OR drop_bit (n - 1) 0x80) = n"
proof -
  define b0 where "b0 = (ucast (drop_bit (8 * (n - 1)) v AND 0xFF) :: u8) OR drop_bit (n - 1) 0x80"
  have bits: "bit b0 k = (k = 8 - n \<or> (k < 8 - n \<and> bit v (k + 8 * (n - 1))))" for k
    unfolding b0_def by (rule vint_first_byte_bits[OF n v])
  have "ebml_vint_length b0 = n"
    using n(1) n(2) by (rule vint_length_cases) (simp_all add: ebml_vint_length_bits bits)
  then show ?thesis by (simp add: b0_def)
qed

lemma vint_first_byte_value:
  fixes v :: u64
  assumes n: "1 \<le> n" "n \<le> 8" and v: "v < 2 ^ (7 * n)"
  shows "(ucast ((ucast (drop_bit (8 * (n - 1)) v AND 0xFF) :: u8) OR drop_bit (n - 1) 0x80) :: u64)
           AND ucast (ucast (drop_bit n (0xFF :: u32)) :: u8) = drop_bit (8 * (n - 1)) v"
proof -
  define b0 where "b0 = (ucast (drop_bit (8 * (n - 1)) v AND 0xFF) :: u8) OR drop_bit (n - 1) 0x80"
  have bits: "bit b0 k = (k = 8 - n \<or> (k < 8 - n \<and> bit v (k + 8 * (n - 1))))" for k
    unfolding b0_def by (rule vint_first_byte_bits[OF n v])
  have "(ucast b0 :: u64) AND ucast (mask (8 - n) :: u8) = drop_bit (8 * (n - 1)) v"
  proof (rule bit_word_eqI)
    fix k assume "k < LENGTH(64)"
    show "bit ((ucast b0 :: u64) AND ucast (mask (8 - n) :: u8)) k = bit (drop_bit (8 * (n - 1)) v) k"
      using word_less_exp_no_high_bit[OF v, of "k + 8 * (n - 1)"] n
      apply (simp only: bit_simps bits)
      apply (auto simp: add.commute)
      done
  qed
  then show ?thesis by (simp add: b0_def vint_mask[OF n])
qed

lemma ebml_vint_encode_fixed_decode:
  assumes n: "1 \<le> n" "n \<le> 8" and v: "v \<le> vint_max_of_length n"
  shows "\<exists>ds. ebml_vint_encode_fixed v n = Inr ds \<and> length ds = n \<and>
              ebml_vint_decode ds = Inr (v, n)"
proof -
  obtain m where m: "n = Suc m" using n by (cases n) auto
  have lt: "v < 2 ^ (7 * n)" by (rule vint_max_of_length_less[OF n v])
  define b0 where "b0 = (ucast (drop_bit (8 * (n - 1)) v AND 0xFF) :: u8) OR drop_bit (n - 1) 0x80"
  have "be_bytes n v = ucast (drop_bit (8 * (n - 1)) v AND 0xFF) # be_bytes (n - 1) v"
    unfolding m by (simp only: be_bytes_Suc_head diff_Suc_1)
  then have enc: "ebml_vint_encode_fixed v n = Inr (b0 # be_bytes (n - 1) v)"
    using n v by (simp add: ebml_vint_encode_fixed_def b0_def Let_def)
  have len: "ebml_vint_length b0 = n"
    unfolding b0_def by (rule vint_first_byte_length[OF n lt])
  have val: "(ucast b0 :: u64) AND ucast (ucast (drop_bit n (0xFF :: u32)) :: u8)
               = drop_bit (8 * (n - 1)) v"
    using vint_first_byte_value[OF n lt] by (simp add: b0_def)
  have acc: "be_accum (drop_bit (8 * (n - 1)) v) (be_bytes (n - 1) v) = v"
  proof -
    have "8 * (n - 1) \<le> 64" using n by simp
    then have "be_accum (drop_bit (8 * (n - 1)) v) (be_bytes (n - 1) v)
                 = push_bit (8 * (n - 1)) (drop_bit (8 * (n - 1)) v) OR take_bit (8 * (n - 1)) v"
      by (rule be_accum_be_bytes)
    also have "\<dots> = v"
      by (rule bit_word_eqI) (auto simp: bit_simps)
    finally show ?thesis .
  qed
  have dec: "ebml_vint_decode (b0 # be_bytes (n - 1) v) = Inr (v, n)"
    unfolding ebml_vint_decode_def using n val acc
    by (simp add: len Let_def)
  show ?thesis using enc dec n by simp
qed


lemma ebml_vint_size_range:
  assumes "v \<le> EBML_VINT_MAX_8"
  shows "1 \<le> ebml_vint_size v \<and> ebml_vint_size v \<le> 8 \<and>
         v \<le> vint_max_of_length (ebml_vint_size v)"
  using assms by (simp add: ebml_vint_size_def vint_max_of_length_def)

lemma ebml_vint_encode_decode:
  assumes "v \<le> EBML_VINT_MAX_8"
  shows "\<exists>ds. ebml_vint_encode v = Inr ds \<and> length ds = ebml_vint_size v \<and>
              ebml_vint_decode ds = Inr (v, ebml_vint_size v)"
proof -
  note r = ebml_vint_size_range[OF assms]
  from r have nz: "ebml_vint_size v \<noteq> 0" by simp
  from r ebml_vint_encode_fixed_decode[of "ebml_vint_size v" v]
  show ?thesis by (simp add: ebml_vint_encode_def Let_def nz)
qed

section \<open>Reading moves forward\<close>

definition advances :: "file_handle \<Rightarrow> file_handle \<Rightarrow> bool" where
  "advances h h' = (fbytes h' = fbytes h \<and> fwritable h' = fwritable h \<and> fpos h \<le> fpos h')"

lemma advances_refl [simp]: "advances h h"
  by (simp add: advances_def)

lemma advances_trans: "advances h h1 \<Longrightarrow> advances h1 h2 \<Longrightarrow> advances h h2"
  by (auto simp: advances_def)

lemma file_size_advances: "advances h h' \<Longrightarrow> file_size h' = file_size h"
  by (simp add: advances_def file_size_def)

lemma file_seek_advances: "fpos h \<le> off \<Longrightarrow> advances h (snd (file_seek h off))"
  by (simp add: file_seek_def advances_def)

lemma file_seek_pos: "file_seek h off = (Inr u, h') \<Longrightarrow> fpos h' = off \<and> 0 \<le> off"
  by (auto simp: file_seek_def split: if_splits)

lemma file_read_advances: "file_read h n = (r, h') \<Longrightarrow> advances h h'"
  by (auto simp: file_read_def advances_def Let_def file_size_def split: if_splits)

lemma file_read_ok:
  assumes "file_read h n = (Inr bs, h')" "0 \<le> fpos h" "0 < n"
  shows "length bs = n \<and> fpos h' = fpos h + int n \<and> fpos h' \<le> file_size h"
  using assms by (auto simp: file_read_def Let_def file_size_def split: if_splits)

lemma read_vint_bytes_advances: "read_vint_bytes mx h = (r, h') \<Longrightarrow> advances h h'"
  by (auto simp: read_vint_bytes_def Let_def split: prod.splits sum.splits if_splits
      dest!: file_read_advances intro: advances_trans)

lemma read_vint_bytes_ok:
  assumes "read_vint_bytes mx h = (Inr bs, h')" "0 \<le> fpos h"
  shows "1 \<le> length bs \<and> length bs \<le> mx \<and> length bs = ebml_vint_length (bs ! 0) \<and>
         fpos h' = fpos h + int (length bs) \<and> fpos h' \<le> file_size h"
proof -
  from assms(1) obtain first h1 where f: "file_read h 1 = (Inr first, h1)"
    by (auto simp: read_vint_bytes_def split: prod.splits sum.splits)
  from file_read_ok[OF f assms(2)] have f1: "length first = 1" "fpos h1 = fpos h + 1" "fpos h1 \<le> file_size h"
    by auto
  have sz1: "file_size h1 = file_size h" using file_read_advances[OF f] by (rule file_size_advances)
  show ?thesis
  proof (cases "ebml_vint_length (first ! 0) > 1")
    case True
    with assms(1) f obtain rest where r: "file_read h1 (ebml_vint_length (first ! 0) - 1) = (Inr rest, h')"
      and bs: "bs = first @ rest" and le: "ebml_vint_length (first ! 0) \<le> mx"
      by (auto simp: read_vint_bytes_def Let_def split: prod.splits sum.splits if_splits)
    from file_read_ok[OF r] f1 True have "length rest = ebml_vint_length (first ! 0) - 1"
      "fpos h' = fpos h1 + int (ebml_vint_length (first ! 0) - 1)" "fpos h' \<le> file_size h1"
      using assms(2) by auto
    with True f1 bs le sz1 show ?thesis by (cases first) auto
  next
    case False
    with assms(1) f have "bs = first" "h' = h1" "ebml_vint_length (first ! 0) = 1" "1 \<le> mx"
      by (auto simp: read_vint_bytes_def Let_def split: prod.splits sum.splits if_splits)
    with f1 show ?thesis by auto
  qed
qed


lemma be_accum_bits:
  assumes "\<And>k. bit r k \<longrightarrow> k < m"
  shows "bit (be_accum r bs) k \<longrightarrow> k < m + 8 * length bs"
  using assms
proof (induction bs arbitrary: k rule: rev_induct)
  case Nil
  then show ?case by (simp add: be_accum_def)
next
  case (snoc b bs)
  have ih: "bit (be_accum r bs) j \<longrightarrow> j < m + 8 * length bs" for j
    using snoc by blast
  show ?case
    unfolding be_accum_snoc using ih[of "k - 8"]
    by (auto simp: bit_simps dest: bit_imp_le_length)
qed

lemma ebml_vint_decode_bound:
  assumes "ebml_vint_decode bs = Inr (v, n)"
  shows "v < 2 ^ 56"
proof -
  define len where "len = ebml_vint_length (bs ! 0)"
  from assms have len: "1 \<le> len" "len \<le> length bs"
    and v: "v = be_accum ((ucast (bs ! 0) :: u64) AND ucast (ucast (drop_bit len (0xFF :: u32)) :: u8))
                 (take (len - 1) (drop 1 bs))"
    by (auto simp: ebml_vint_decode_def Let_def len_def split: if_splits)
  have len8: "len \<le> 8" unfolding len_def ebml_vint_length_def by simp
  have r: "bit ((ucast (bs ! 0) :: u64) AND ucast (ucast (drop_bit len (0xFF :: u32)) :: u8)) k
             \<longrightarrow> k < 8 - len" for k
    unfolding vint_mask[OF len(1) len8] by (auto simp: bit_simps)
  have "bit v k \<longrightarrow> k < 56" for k
  proof
    assume "bit v k"
    with be_accum_bits[OF r, of _ k] v
    have "k < 8 - len + 8 * length (take (len - 1) (drop 1 bs))" by blast
    also have "\<dots> \<le> 8 - len + 8 * (len - 1)" by simp
    also have "\<dots> \<le> 56" using len len8 by simp
    finally show "k < 56" .
  qed
  then have "take_bit 56 v = v"
    by (intro bit_word_eqI) (auto simp: bit_simps)
  then have e: "v AND mask 56 = v" by (simp add: take_bit_eq_mask)
  have "v AND mask 56 < 2 ^ 56" by (rule and_mask_less') simp
  then show ?thesis by (simp only: e)
qed


lemma sint_vint_decode:
  assumes "ebml_vint_decode bs = Inr (v, n)"
  shows "0 \<le> sint v"
proof -
  have "v < 2 ^ 56" by (rule ebml_vint_decode_bound[OF assms])
  then have "\<not> bit v 63" using word_less_exp_no_high_bit[of v 56 63] by auto
  then show ?thesis using bit_last_iff[of v] by simp
qed

lemma ebml_read_element_header_advances:
  "ebml_read_element_header h = (r, h') \<Longrightarrow> advances h h'"
  by (auto simp: ebml_read_element_header_def Let_def
      split: prod.splits sum.splits if_splits
      dest!: read_vint_bytes_advances intro: advances_trans)

lemma ebml_read_element_header_ok:
  assumes "ebml_read_element_header h = (Inr e, h')"
  shows "0 \<le> fpos h \<and> fpos h < fpos h' \<and> fpos h' \<le> file_size h \<and>
         data_offset e = fpos h' \<and> data_offset e \<le> end_offset e"
proof -
  from assms have p: "0 \<le> fpos h"
    by (auto simp: ebml_read_element_header_def file_tell_def split: if_splits)
  from assms p obtain id_bytes h1 size_bytes sz n where
    a: "read_vint_bytes 4 h = (Inr id_bytes, h1)" and
    b: "read_vint_bytes 8 h1 = (Inr size_bytes, h')" and
    c: "ebml_vint_decode size_bytes = Inr (sz, n)" and
    d: "data_offset e = fpos h'" and
    f: "end_offset e = (if ebml_vint_is_unknown sz (length size_bytes) then file_size h'
                        else fpos h' + sint sz)"
    by (auto simp: ebml_read_element_header_def file_tell_def Let_def
        split: prod.splits sum.splits if_splits)
  from read_vint_bytes_ok[OF a p] have a1: "fpos h1 = fpos h + int (length id_bytes)"
    "1 \<le> length id_bytes" "fpos h1 \<le> file_size h" by auto
  have s1: "file_size h1 = file_size h"
    using read_vint_bytes_advances[OF a] by (rule file_size_advances)
  have p1: "0 \<le> fpos h1" using a1 p by simp
  from read_vint_bytes_ok[OF b p1] have b1: "fpos h' = fpos h1 + int (length size_bytes)"
    "1 \<le> length size_bytes" "fpos h' \<le> file_size h1" by auto
  have s2: "file_size h' = file_size h1"
    using read_vint_bytes_advances[OF b] by (rule file_size_advances)
  show ?thesis
    using p a1 b1 s1 s2 d f sint_vint_decode[OF c] by auto
qed

lemma ebml_skip_element_advances:
  "fpos h \<le> end_offset e \<Longrightarrow> advances h (snd (ebml_skip_element h e))"
  by (simp add: ebml_skip_element_def file_seek_advances)

lemma ebml_read_uint_advances:
  "ebml_read_uint h e = (r, h') \<Longrightarrow> fpos h \<le> data_offset e \<Longrightarrow> advances h h'"
  by (auto simp: ebml_read_uint_def split: prod.splits sum.splits if_splits
      dest!: file_read_advances
      dest: file_seek_advances[of h "data_offset e"] intro: advances_trans)


lemma ebml_read_string_alloc_advances:
  "ebml_read_string_alloc h e = (r, h') \<Longrightarrow> fpos h \<le> data_offset e \<Longrightarrow> advances h h'"
  by (auto simp: ebml_read_string_alloc_def ebml_read_string_def
      split: prod.splits sum.splits if_splits
      dest!: file_read_advances
      dest: file_seek_advances[of h "data_offset e"] intro: advances_trans)

lemma ebml_read_binary_alloc_advances:
  "ebml_read_binary_alloc h e = (r, h') \<Longrightarrow> fpos h \<le> data_offset e \<Longrightarrow> advances h h'"
  by (auto simp: ebml_read_binary_alloc_def ebml_read_binary_def Let_def
      split: prod.splits sum.splits if_splits
      dest!: file_read_advances
      dest: file_seek_advances[of h "data_offset e"] intro: advances_trans)

definition remaining :: "file_handle \<Rightarrow> nat" where
  "remaining h = nat (file_size h - fpos h)"

lemma child_step_decreases:
  assumes r: "ebml_read_element_header h = (Inr child, h1)" and a: "advances h1 h2"
  shows "remaining (snd (ebml_skip_element h2 child)) < remaining h"
proof -
  note ok = ebml_read_element_header_ok[OF r]
  have a1: "advances h h1" by (rule ebml_read_element_header_advances[OF r])
  have "fpos h2 \<le> end_offset child \<or> is_unknown_size child \<or> True" by simp
  have a3: "advances h2 (snd (ebml_skip_element h2 child)) \<or>
            fpos (snd (ebml_skip_element h2 child)) = end_offset child \<and>
            fbytes (snd (ebml_skip_element h2 child)) = fbytes h2"
    by (auto simp: ebml_skip_element_def file_seek_def advances_def)
  then show ?thesis
    using ok a a1 by (auto simp: remaining_def advances_def file_size_def)
qed

lemma child_enter_decreases:
  assumes r: "ebml_read_element_header h = (Inr child, h1)"
    and s: "file_seek h1 (data_offset child) = (Inr u, hs)"
  shows "remaining hs < remaining h \<and> advances h1 hs"
  using ebml_read_element_header_ok[OF r] ebml_read_element_header_advances[OF r] s
  by (auto simp: remaining_def advances_def file_size_def file_seek_def split: if_splits)

definition new_tag :: tag where
  "new_tag = \<lparr>target_type = 0, target_type_str = None, track_uids = [], edition_uids = [],
              chapter_uids = [], attachment_uids = [], simple_tags = []\<rparr>"

definition parse_targets_child :: "ebml_element \<Rightarrow> file_handle \<Rightarrow> tag \<Rightarrow> tag \<times> file_handle" where
  "parse_targets_child child h t =
     (if elem_id child = MKV_ID_TARGET_TYPE_VALUE then
        (case ebml_read_uint h child of
           (Inr v, h') \<Rightarrow> (t\<lparr>target_type := ucast v\<rparr>, h')
         | (Inl err, h') \<Rightarrow> (t, h'))
      else if elem_id child = MKV_ID_TARGET_TYPE then
        (case ebml_read_string_alloc h child of
           (Inr s, h') \<Rightarrow> (t\<lparr>target_type_str := Some s\<rparr>, h')
         | (Inl err, h') \<Rightarrow> (t, h'))
      else if elem_id child = MKV_ID_TAG_TRACK_UID then
        (case ebml_read_uint h child of
           (Inr uid, h') \<Rightarrow> (t\<lparr>track_uids := track_uids t @ [uid]\<rparr>, h')
         | (Inl err, h') \<Rightarrow> (t, h'))
      else if elem_id child = MKV_ID_TAG_EDITION_UID then
        (case ebml_read_uint h child of
           (Inr uid, h') \<Rightarrow> (t\<lparr>edition_uids := edition_uids t @ [uid]\<rparr>, h')
         | (Inl err, h') \<Rightarrow> (t, h'))
      else if elem_id child = MKV_ID_TAG_CHAPTER_UID then
        (case ebml_read_uint h child of
           (Inr uid, h') \<Rightarrow> (t\<lparr>chapter_uids := chapter_uids t @ [uid]\<rparr>, h')
         | (Inl err, h') \<Rightarrow> (t, h'))
      else if elem_id child = MKV_ID_TAG_ATTACHMENT_UID then
        (case ebml_read_uint h child of
           (Inr uid, h') \<Rightarrow> (t\<lparr>attachment_uids := attachment_uids t @ [uid]\<rparr>, h')
         | (Inl err, h') \<Rightarrow> (t, h'))
      else (t, h))"

lemma parse_targets_child_advances:
  "parse_targets_child child h t = (t', h') \<Longrightarrow> fpos h \<le> data_offset child \<Longrightarrow> advances h h'"
  by (auto simp: parse_targets_child_def split: if_splits prod.splits sum.splits
      dest: ebml_read_uint_advances ebml_read_string_alloc_advances)

lemma child_step_decreases_sym:
  assumes "(x, h1) = ebml_read_element_header h" "x = Inr child" "advances h1 h2"
  shows "remaining (snd (ebml_skip_element h2 child)) < remaining h"
  using child_step_decreases[of h child h1 h2] assms by simp

lemma header_data_offset_sym:
  assumes "(x, h1) = ebml_read_element_header h" "x = Inr child"
  shows "fpos h1 \<le> data_offset child"
  using ebml_read_element_header_ok[of h child h1] assms by simp

function parse_targets_loop :: "ebml_element \<Rightarrow> file_handle \<Rightarrow> tag \<Rightarrow> tag \<times> file_handle" where
  "parse_targets_loop targets_elem h t =
     (if ebml_at_element_end h targets_elem then (t, h)
      else case ebml_read_element_header h of
        (Inl err, h1) \<Rightarrow> (t, h1)
      | (Inr child, h1) \<Rightarrow>
          (case parse_targets_child child h1 t of
             (t', h2) \<Rightarrow> parse_targets_loop targets_elem (snd (ebml_skip_element h2 child)) t'))"
  by pat_completeness auto
termination
  by (relation "measure (\<lambda>(targets_elem, h, t). remaining h)")
    (auto intro!: child_step_decreases_sym
          intro: parse_targets_child_advances[OF sym] header_data_offset_sym)


declare parse_targets_loop.simps [simp del]

lemma parse_targets_loop_advances:
  "advances h (snd (parse_targets_loop targets_elem h t))"
proof (induction targets_elem h t rule: parse_targets_loop.induct)
  case (1 targets_elem h t)
  show ?case
  proof (cases "ebml_at_element_end h targets_elem")
    case True
    then show ?thesis by (simp add: parse_targets_loop.simps)
  next
    case False
    obtain x h1 where r: "ebml_read_element_header h = (x, h1)" by (cases "ebml_read_element_header h")
    have a1: "advances h h1" by (rule ebml_read_element_header_advances[OF r])
    show ?thesis
    proof (cases x)
      case (Inl err)
      with False r a1 show ?thesis by (simp add: parse_targets_loop.simps[of targets_elem h])
    next
      case (Inr child)
      obtain t' h2 where c: "parse_targets_child child h1 t = (t', h2)"
        by (cases "parse_targets_child child h1 t")
      note ok = ebml_read_element_header_ok[OF r[unfolded Inr]]
      have a2: "advances h1 h2" using parse_targets_child_advances[OF c] ok by simp
      have lt: "remaining (snd (ebml_skip_element h2 child)) < remaining h"
        by (rule child_step_decreases[OF r[unfolded Inr] a2])
      have a4: "fpos h \<le> fpos (snd (ebml_skip_element h2 child))"
        using lt a1 a2 ok by (auto simp: remaining_def advances_def file_size_def ebml_skip_element_def file_seek_def split: if_splits)
      have a5: "advances h (snd (ebml_skip_element h2 child))"
        using a1 a2 a4 by (auto simp: advances_def ebml_skip_element_def file_seek_def)
      have ih: "advances (snd (ebml_skip_element h2 child))
                  (snd (parse_targets_loop targets_elem (snd (ebml_skip_element h2 child)) t'))"
        using 1[OF False r[symmetric] Inr c[symmetric]] .
      show ?thesis
        using False r Inr c advances_trans[OF a5 ih]
        by (simp add: parse_targets_loop.simps[of targets_elem h])
    qed
  qed
qed


lemma child_step_advances:
  assumes r: "ebml_read_element_header h = (Inr child, h1)" and a: "advances h1 h2"
  shows "advances h (snd (ebml_skip_element h2 child))"
proof -
  note ok = ebml_read_element_header_ok[OF r]
  have a1: "advances h h1" by (rule ebml_read_element_header_advances[OF r])
  have lt: "remaining (snd (ebml_skip_element h2 child)) < remaining h"
    by (rule child_step_decreases[OF r a])
  have "fpos h \<le> fpos (snd (ebml_skip_element h2 child))"
    using lt a1 a ok
    by (auto simp: remaining_def advances_def file_size_def ebml_skip_element_def file_seek_def
        split: if_splits)
  then show ?thesis
    using a1 a by (auto simp: advances_def ebml_skip_element_def file_seek_def)
qed

definition new_simple_tag :: simple_tag where
  "new_simple_tag = SimpleTag None None None None 1 []"

fun set_name :: "u8 list option \<Rightarrow> simple_tag \<Rightarrow> simple_tag" where
  "set_name x (SimpleTag nm vl bin lang dflt nst) = SimpleTag x vl bin lang dflt nst"
fun set_val :: "u8 list option \<Rightarrow> simple_tag \<Rightarrow> simple_tag" where
  "set_val x (SimpleTag nm vl bin lang dflt nst) = SimpleTag nm x bin lang dflt nst"
fun set_binary :: "u8 list option \<Rightarrow> simple_tag \<Rightarrow> simple_tag" where
  "set_binary x (SimpleTag nm vl bin lang dflt nst) = SimpleTag nm vl x lang dflt nst"
fun set_language :: "u8 list option \<Rightarrow> simple_tag \<Rightarrow> simple_tag" where
  "set_language x (SimpleTag nm vl bin lang dflt nst) = SimpleTag nm vl bin x dflt nst"
fun set_is_default :: "int \<Rightarrow> simple_tag \<Rightarrow> simple_tag" where
  "set_is_default x (SimpleTag nm vl bin lang dflt nst) = SimpleTag nm vl bin lang x nst"
fun set_nested :: "simple_tag list \<Rightarrow> simple_tag \<Rightarrow> simple_tag" where
  "set_nested x (SimpleTag nm vl bin lang dflt nst) = SimpleTag nm vl bin lang dflt x"

definition parse_simple_tag_leaf ::
    "ebml_element \<Rightarrow> file_handle \<Rightarrow> simple_tag \<Rightarrow> simple_tag \<times> file_handle" where
  "parse_simple_tag_leaf child h stag =
     (if elem_id child = MKV_ID_TAG_NAME then
        (case ebml_read_string_alloc h child of
           (Inr s, h') \<Rightarrow> (set_name (Some s) stag, h')
         | (Inl err, h') \<Rightarrow> (stag, h'))
      else if elem_id child = MKV_ID_TAG_STRING then
        (case ebml_read_string_alloc h child of
           (Inr s, h') \<Rightarrow> (set_val (Some s) stag, h')
         | (Inl err, h') \<Rightarrow> (stag, h'))
      else if elem_id child = MKV_ID_TAG_BINARY then
        (case ebml_read_binary_alloc h child of
           (Inr b, h') \<Rightarrow> (set_binary b stag, h')
         | (Inl err, h') \<Rightarrow> (stag, h'))
      else if elem_id child = MKV_ID_TAG_LANGUAGE \<or> elem_id child = MKV_ID_TAG_LANGUAGE_BCP47 then
        (case ebml_read_string_alloc h child of
           (Inr s, h') \<Rightarrow> (set_language (Some s) stag, h')
         | (Inl err, h') \<Rightarrow> (stag, h'))
      else if elem_id child = MKV_ID_TAG_DEFAULT then
        (case ebml_read_uint h child of
           (Inr v, h') \<Rightarrow> (set_is_default (sint (ucast v :: u32)) stag, h')
         | (Inl err, h') \<Rightarrow> (stag, h'))
      else (stag, h))"

lemma parse_simple_tag_leaf_advances:
  "parse_simple_tag_leaf child h stag = (stag', h') \<Longrightarrow> fpos h \<le> data_offset child \<Longrightarrow>
   advances h h'"
  by (auto simp: parse_simple_tag_leaf_def split: if_splits prod.splits sum.splits
      dest: ebml_read_uint_advances ebml_read_string_alloc_advances ebml_read_binary_alloc_advances)

function parse_simple_tag_loop ::
    "ebml_element \<Rightarrow> file_handle \<Rightarrow> simple_tag \<Rightarrow> simple_tag \<times> file_handle" where
  "parse_simple_tag_loop simple_elem h stag =
     (if ebml_at_element_end h simple_elem then (stag, h)
      else case ebml_read_element_header h of
        (Inl err, h1) \<Rightarrow> (stag, h1)
      | (Inr child, h1) \<Rightarrow>
          (case (if elem_id child = MKV_ID_SIMPLE_TAG then
                   (case file_seek h1 (data_offset child) of
                      (Inl err, hs) \<Rightarrow> (stag, hs)
                    | (Inr u, hs) \<Rightarrow>
                        (case parse_simple_tag_loop child hs new_simple_tag of
                           (nst, hn) \<Rightarrow> (set_nested (nst # nested stag) stag, hn)))
                 else parse_simple_tag_leaf child h1 stag) of
             (stag', h2) \<Rightarrow>
               parse_simple_tag_loop simple_elem (snd (ebml_skip_element h2 child)) stag'))"
  by pat_completeness auto


text \<open>The body of one iteration: the nested parse or a leaf read.\<close>

lemma simple_tag_child_advances:
  assumes r: "ebml_read_element_header h = (Inr child, h1)"
    and b: "(if elem_id child = MKV_ID_SIMPLE_TAG then
               (case file_seek h1 (data_offset child) of
                  (Inl err, hs) \<Rightarrow> (stag, hs)
                | (Inr u, hs) \<Rightarrow>
                    (case parse_simple_tag_loop child hs new_simple_tag of
                       (nst, hn) \<Rightarrow> (set_nested (nst # nested stag) stag, hn)))
             else parse_simple_tag_leaf child h1 stag) = (stag', h2)"
    and inner: "\<And>u hs. elem_id child = MKV_ID_SIMPLE_TAG \<Longrightarrow>
                  file_seek h1 (data_offset child) = (Inr u, hs) \<Longrightarrow>
                  advances hs (snd (parse_simple_tag_loop child hs new_simple_tag))"
  shows "advances h1 h2"
proof (cases "elem_id child = MKV_ID_SIMPLE_TAG")
  case True
  note ok = ebml_read_element_header_ok[OF r]
  obtain x hs where s: "file_seek h1 (data_offset child) = (x, hs)"
    by (cases "file_seek h1 (data_offset child)")
  show ?thesis
  proof (cases x)
    case (Inl err)
    with True b s have "h2 = hs" by simp
    moreover have "hs = h1" using s Inl by (auto simp: file_seek_def split: if_splits)
    ultimately show ?thesis by simp
  next
    case (Inr u)
    have a: "advances h1 hs" using child_enter_decreases[OF r s[unfolded Inr]] by simp
    have i: "advances hs (snd (parse_simple_tag_loop child hs new_simple_tag))"
      using inner[OF True s[unfolded Inr]] .
    have "h2 = snd (parse_simple_tag_loop child hs new_simple_tag)"
      using True b s Inr by (simp split: prod.splits)
    with a i show ?thesis by (auto intro: advances_trans)
  qed
next
  case False
  with b have "parse_simple_tag_leaf child h1 stag = (stag', h2)" by simp
  then show ?thesis
    using parse_simple_tag_leaf_advances ebml_read_element_header_ok[OF r] by simp
qed

lemma parse_simple_tag_loop_step:
  assumes eq: "parse_simple_tag_loop simple_elem h stag =
     (if ebml_at_element_end h simple_elem then (stag, h)
      else case ebml_read_element_header h of
        (Inl err, h1) \<Rightarrow> (stag, h1)
      | (Inr child, h1) \<Rightarrow>
          (case (if elem_id child = MKV_ID_SIMPLE_TAG then
                   (case file_seek h1 (data_offset child) of
                      (Inl err, hs) \<Rightarrow> (stag, hs)
                    | (Inr u, hs) \<Rightarrow>
                        (case parse_simple_tag_loop child hs new_simple_tag of
                           (nst, hn) \<Rightarrow> (set_nested (nst # nested stag) stag, hn)))
                 else parse_simple_tag_leaf child h1 stag) of
             (stag', h2) \<Rightarrow>
               parse_simple_tag_loop simple_elem (snd (ebml_skip_element h2 child)) stag'))"
    and ih1: "\<And>x y b xa ya ba. \<not> ebml_at_element_end h simple_elem \<Longrightarrow>
                (x, y) = ebml_read_element_header h \<Longrightarrow> x = Inr b \<Longrightarrow>
                elem_id b = MKV_ID_SIMPLE_TAG \<Longrightarrow> (xa, ya) = file_seek y (data_offset b) \<Longrightarrow>
                xa = Inr ba \<Longrightarrow>
                advances ya (snd (parse_simple_tag_loop b ya new_simple_tag))"
    and ih2: "\<And>x y b xa ya. \<not> ebml_at_element_end h simple_elem \<Longrightarrow>
                (x, y) = ebml_read_element_header h \<Longrightarrow> x = Inr b \<Longrightarrow>
                (xa, ya) =
                  (if elem_id b = MKV_ID_SIMPLE_TAG then
                     (case file_seek y (data_offset b) of
                        (Inl err, hs) \<Rightarrow> (stag, hs)
                      | (Inr u, hs) \<Rightarrow>
                          (case parse_simple_tag_loop b hs new_simple_tag of
                             (nst, hn) \<Rightarrow> (set_nested (nst # nested stag) stag, hn)))
                   else parse_simple_tag_leaf b y stag) \<Longrightarrow>
                advances (snd (ebml_skip_element ya b))
                  (snd (parse_simple_tag_loop simple_elem (snd (ebml_skip_element ya b)) xa))"
  shows "advances h (snd (parse_simple_tag_loop simple_elem h stag))"
proof (cases "ebml_at_element_end h simple_elem")
  case True
  then show ?thesis by (simp add: eq)
next
  case False
  obtain x h1 where r: "ebml_read_element_header h = (x, h1)"
    by (cases "ebml_read_element_header h")
  show ?thesis
  proof (cases x)
    case (Inl err)
    with False r ebml_read_element_header_advances[OF r] show ?thesis
      by (simp add: eq)
  next
    case (Inr child)
    note r' = r[unfolded Inr]
    define body where "body =
          (if elem_id child = MKV_ID_SIMPLE_TAG then
             (case file_seek h1 (data_offset child) of
                (Inl err, hs) \<Rightarrow> (stag, hs)
              | (Inr u, hs) \<Rightarrow>
                  (case parse_simple_tag_loop child hs new_simple_tag of
                     (nst, hn) \<Rightarrow> (set_nested (nst # nested stag) stag, hn)))
           else parse_simple_tag_leaf child h1 stag)"
    obtain stag' h2 where b0: "body = (stag', h2)" by (cases body)
    note b = b0[unfolded body_def]
    have inner: "advances hs (snd (parse_simple_tag_loop child hs new_simple_tag))"
      if "elem_id child = MKV_ID_SIMPLE_TAG" "file_seek h1 (data_offset child) = (Inr u, hs)"
      for u hs
      using ih1[OF False r[symmetric] Inr that(1) that(2)[symmetric] refl] .
    have a2: "advances h1 h2" by (rule simple_tag_child_advances[OF r' b inner])
    have a3: "advances h (snd (ebml_skip_element h2 child))"
      by (rule child_step_advances[OF r' a2])
    have ih: "advances (snd (ebml_skip_element h2 child))
                (snd (parse_simple_tag_loop simple_elem (snd (ebml_skip_element h2 child)) stag'))"
      using ih2[OF False r[symmetric] Inr b[symmetric]] .
    show ?thesis
      using False r Inr b advances_trans[OF a3 ih] by (simp add: eq)
  qed
qed

lemma parse_simple_tag_loop_dom_advances:
  "parse_simple_tag_loop_dom (simple_elem, h, stag) \<Longrightarrow>
   advances h (snd (parse_simple_tag_loop simple_elem h stag))"
proof (induct rule: parse_simple_tag_loop.pinduct)
  case (1 simple_elem h stag)
  show ?case
    by (rule parse_simple_tag_loop_step[OF parse_simple_tag_loop.psimps[OF 1(1)] 1(2) 1(3)])
qed

termination parse_simple_tag_loop
proof (relation "measure (\<lambda>(simple_elem, h, stag). remaining h)", goal_cases)
  case 1
  show ?case by simp
next
  case (2 simple_elem h stag x y b xa ya ba)
  then show ?case
    using child_enter_decreases[of h b y ba ya] by simp
next
  case (3 simple_elem h stag x y b xa ya)
  have r: "ebml_read_element_header h = (Inr b, y)" using 3(2,3) by simp
  have inner: "advances hs (snd (parse_simple_tag_loop b hs new_simple_tag))"
    if "elem_id b = MKV_ID_SIMPLE_TAG" "file_seek y (data_offset b) = (Inr u, hs)" for u hs
    using parse_simple_tag_loop_dom_advances[OF 3(5)[OF that(1) that(2)[symmetric] refl]] .
  have "advances y ya"
    by (rule simple_tag_child_advances[OF r 3(4)[symmetric] inner])
  from child_step_decreases[OF r this] show ?case by simp
qed

declare parse_simple_tag_loop.simps [simp del]


lemma parse_simple_tag_loop_advances:
  "advances h (snd (parse_simple_tag_loop simple_elem h stag))"
proof (induction simple_elem h stag rule: parse_simple_tag_loop.induct)
  case (1 simple_elem h stag)
  show ?case
    by (rule parse_simple_tag_loop_step[OF parse_simple_tag_loop.simps 1(1) 1(2)])
qed

definition parse_simple_tag :: "ebml_element \<Rightarrow> file_handle \<Rightarrow> simple_tag option \<times> file_handle" where
  "parse_simple_tag simple_elem h =
     (case file_seek h (data_offset simple_elem) of
        (Inl err, h1) \<Rightarrow> (None, h1)
      | (Inr u, h1) \<Rightarrow>
          (case parse_simple_tag_loop simple_elem h1 new_simple_tag of
             (stag, h2) \<Rightarrow> (Some stag, h2)))"

definition parse_targets :: "ebml_element \<Rightarrow> file_handle \<Rightarrow> tag \<Rightarrow> tag \<times> file_handle" where
  "parse_targets targets_elem h t =
     (case file_seek h (data_offset targets_elem) of
        (Inl err, h1) \<Rightarrow> (t, h1)
      | (Inr u, h1) \<Rightarrow>
          parse_targets_loop targets_elem h1 (t\<lparr>target_type := MKVTAG_TARGET_ALBUM\<rparr>))"

lemma parse_simple_tag_advances:
  "parse_simple_tag e h = (r, h') \<Longrightarrow> fpos h \<le> data_offset e \<Longrightarrow> advances h h'"
  using parse_simple_tag_loop_advances[of "snd (file_seek h (data_offset e))" e new_simple_tag]
    file_seek_advances[of h "data_offset e"]
  by (auto simp: parse_simple_tag_def split: prod.splits sum.splits intro: advances_trans)

lemma parse_targets_advances:
  "parse_targets e h t = (r, h') \<Longrightarrow> fpos h \<le> data_offset e \<Longrightarrow> advances h h'"
  using parse_targets_loop_advances[of "snd (file_seek h (data_offset e))" e "t\<lparr>target_type := MKVTAG_TARGET_ALBUM\<rparr>"]
    file_seek_advances[of h "data_offset e"]
  by (auto simp: parse_targets_def split: prod.splits sum.splits intro: advances_trans)

definition parse_tag_child :: "ebml_element \<Rightarrow> file_handle \<Rightarrow> tag \<Rightarrow> tag \<times> file_handle" where
  "parse_tag_child child h t =
     (if elem_id child = MKV_ID_TARGETS then parse_targets child h t
      else if elem_id child = MKV_ID_SIMPLE_TAG then
        (case parse_simple_tag child h of
           (Some stag, h') \<Rightarrow> (t\<lparr>simple_tags := stag # simple_tags t\<rparr>, h')
         | (None, h') \<Rightarrow> (t, h'))
      else (t, h))"

lemma parse_tag_child_advances:
  "parse_tag_child child h t = (t', h') \<Longrightarrow> fpos h \<le> data_offset child \<Longrightarrow> advances h h'"
  by (auto simp: parse_tag_child_def split: if_splits prod.splits option.splits
      dest: parse_targets_advances parse_simple_tag_advances)

function parse_tag_loop :: "ebml_element \<Rightarrow> file_handle \<Rightarrow> tag \<Rightarrow> tag \<times> file_handle" where
  "parse_tag_loop tag_elem h t =
     (if ebml_at_element_end h tag_elem then (t, h)
      else case ebml_read_element_header h of
        (Inl err, h1) \<Rightarrow> (t, h1)
      | (Inr child, h1) \<Rightarrow>
          (case parse_tag_child child h1 t of
             (t', h2) \<Rightarrow> parse_tag_loop tag_elem (snd (ebml_skip_element h2 child)) t'))"
  by pat_completeness auto
termination
  by (relation "measure (\<lambda>(tag_elem, h, t). remaining h)")
    (auto intro!: child_step_decreases_sym
          intro: parse_tag_child_advances[OF sym] header_data_offset_sym)

declare parse_tag_loop.simps [simp del]

lemma parse_tag_loop_advances: "advances h (snd (parse_tag_loop tag_elem h t))"
proof (induction tag_elem h t rule: parse_tag_loop.induct)
  case (1 tag_elem h t)
  show ?case
  proof (cases "ebml_read_element_header h")
    case (Pair x h1)
    show ?thesis
    proof (cases x)
      case (Inl err)
      with Pair ebml_read_element_header_advances[OF Pair] show ?thesis
        by (simp add: parse_tag_loop.simps[of tag_elem h])
    next
      case (Inr child)
      note r = Pair[unfolded Inr]
      obtain t' h2 where c: "parse_tag_child child h1 t = (t', h2)"
        by (cases "parse_tag_child child h1 t")
      have a2: "advances h1 h2"
        using parse_tag_child_advances[OF c] ebml_read_element_header_ok[OF r] by simp
      note a3 = child_step_advances[OF r a2]
      show ?thesis
      proof (cases "ebml_at_element_end h tag_elem")
        case True
        then show ?thesis by (simp add: parse_tag_loop.simps[of tag_elem h])
      next
        case False
        from 1[OF False Pair[symmetric] Inr c[symmetric]] a3 False Pair Inr c
        show ?thesis
          by (auto simp: parse_tag_loop.simps[of tag_elem h] intro: advances_trans)
      qed
    qed
  qed
qed

definition parse_tag :: "ebml_element \<Rightarrow> file_handle \<Rightarrow> tag option \<times> file_handle" where
  "parse_tag tag_elem h =
     (case file_seek h (data_offset tag_elem) of
        (Inl err, h1) \<Rightarrow> (None, h1)
      | (Inr u, h1) \<Rightarrow>
          (case parse_tag_loop tag_elem h1 (new_tag\<lparr>target_type := MKVTAG_TARGET_ALBUM\<rparr>) of
             (t, h2) \<Rightarrow> (Some t, h2)))"

lemma parse_tag_advances:
  "parse_tag e h = (r, h') \<Longrightarrow> fpos h \<le> data_offset e \<Longrightarrow> advances h h'"
  using parse_tag_loop_advances[of "snd (file_seek h (data_offset e))" e "new_tag\<lparr>target_type := MKVTAG_TARGET_ALBUM\<rparr>"]
    file_seek_advances[of h "data_offset e"]
  by (auto simp: parse_tag_def split: prod.splits sum.splits intro: advances_trans)

definition tags_child :: "ebml_element \<Rightarrow> file_handle \<Rightarrow> collection \<Rightarrow> collection \<times> file_handle" where
  "tags_child child h coll =
     (if elem_id child = MKV_ID_TAG then
        (case parse_tag child h of
           (Some t, h') \<Rightarrow> (coll @ [t], h')
         | (None, h') \<Rightarrow> (coll, h'))
      else (coll, h))"

lemma tags_child_advances:
  "tags_child child h c = (c', h') \<Longrightarrow> fpos h \<le> data_offset child \<Longrightarrow> advances h h'"
  by (auto simp: tags_child_def split: if_splits prod.splits option.splits
      dest: parse_tag_advances)

function mkv_tags_parse_loop ::
    "ebml_element \<Rightarrow> file_handle \<Rightarrow> collection \<Rightarrow> collection \<times> file_handle" where
  "mkv_tags_parse_loop tags_element h coll =
     (if ebml_at_element_end h tags_element then (coll, h)
      else case ebml_read_element_header h of
        (Inl err, h1) \<Rightarrow> (coll, h1)
      | (Inr child, h1) \<Rightarrow>
          (case tags_child child h1 coll of
             (coll', h2) \<Rightarrow>
               mkv_tags_parse_loop tags_element (snd (ebml_skip_element h2 child)) coll'))"
  by pat_completeness auto
termination
  by (relation "measure (\<lambda>(tags_element, h, coll). remaining h)")
    (auto intro!: child_step_decreases_sym
          intro: tags_child_advances[OF sym] header_data_offset_sym)

declare mkv_tags_parse_loop.simps [simp del]

definition mkv_tags_parse :: "file_handle \<Rightarrow> ebml_element \<Rightarrow> collection io" where
  "mkv_tags_parse h tags_element =
     (case file_seek h (data_offset tags_element) of
        (Inl err, h1) \<Rightarrow> (Inl err, h1)
      | (Inr u, h1) \<Rightarrow>
          (case mkv_tags_parse_loop tags_element h1 [] of
             (coll, h2) \<Rightarrow> (Inr coll, h2)))"


section \<open>Segment structure record (\<open>mkv_parser.h\<close>)\<close>

text \<open>
  \<open>mkv_file_t\<close> without its file handle, which is kept in the context, and without the
  element position cache, which no operation reads.
\<close>

record mkv_file =
  ebml_version :: int
  ebml_read_version :: int
  doctype :: "u8 list"
  doctype_version :: int
  doctype_read_version :: int
  segment_offset :: int
  segment_data_offset :: int
  segment_size :: u64
  segment_unknown_size :: bool
  seekhead_offset :: int
  info_offset :: int
  tracks_offset :: int
  cues_offset :: int
  tags_offset :: int
  chapters_offset :: int
  attachments_offset :: int
  clusters_offset :: int
  void_offset :: int
  void_size :: u64

definition mkv_absolute_to_segment :: "mkv_file \<Rightarrow> int \<Rightarrow> u64" where
  "mkv_absolute_to_segment mkv absolute_offset =
     word_of_int (absolute_offset - segment_data_offset mkv)"

section \<open>Structure navigator (\<open>mkv_parser.c\<close>)\<close>

definition EBML_ID_EBML :: u32 where "EBML_ID_EBML = 0x1A45DFA3"
definition EBML_ID_VERSION :: u32 where "EBML_ID_VERSION = 0x4286"
definition EBML_ID_READ_VERSION :: u32 where "EBML_ID_READ_VERSION = 0x42F7"
definition EBML_ID_DOCTYPE :: u32 where "EBML_ID_DOCTYPE = 0x4282"
definition EBML_ID_DOCTYPE_VERSION :: u32 where "EBML_ID_DOCTYPE_VERSION = 0x4287"
definition EBML_ID_DOCTYPE_READ_VER :: u32 where "EBML_ID_DOCTYPE_READ_VER = 0x4285"
definition MKV_ID_INFO :: u32 where "MKV_ID_INFO = 0x1549A966"
definition MKV_ID_TRACKS :: u32 where "MKV_ID_TRACKS = 0x1654AE6B"
definition MKV_ID_CUES :: u32 where "MKV_ID_CUES = 0x1C53BB6B"
definition MKV_ID_CHAPTERS :: u32 where "MKV_ID_CHAPTERS = 0x1043A770"
definition MKV_ID_ATTACHMENTS :: u32 where "MKV_ID_ATTACHMENTS = 0x1941A469"
definition MKV_ID_CLUSTER :: u32 where "MKV_ID_CLUSTER = 0x1F43B675"

definition mkv_file_init :: mkv_file where
  "mkv_file_init =
     \<lparr>ebml_version = 0, ebml_read_version = 0, doctype = [], doctype_version = 0,
      doctype_read_version = 0, segment_offset = 0, segment_data_offset = 0,
      segment_size = 0, segment_unknown_size = False, seekhead_offset = - 1,
      info_offset = - 1, tracks_offset = - 1, cues_offset = - 1, tags_offset = - 1,
      chapters_offset = - 1, attachments_offset = - 1, clusters_offset = - 1,
      void_offset = - 1, void_size = 0\<rparr>"

text \<open>\<open>(int)val\<close> for a \<open>uint64_t\<close>.\<close>

definition int_of_u64 :: "u64 \<Rightarrow> int" where
  "int_of_u64 v = sint (ucast v :: u32)"

definition header_child :: "ebml_element \<Rightarrow> file_handle \<Rightarrow> mkv_file \<Rightarrow> mkv_file \<times> file_handle" where
  "header_child child h m =
     (if elem_id child = EBML_ID_VERSION then
        (case ebml_read_uint h child of
           (Inr v, h') \<Rightarrow> (m\<lparr>ebml_version := int_of_u64 v\<rparr>, h')
         | (Inl err, h') \<Rightarrow> (m, h'))
      else if elem_id child = EBML_ID_READ_VERSION then
        (case ebml_read_uint h child of
           (Inr v, h') \<Rightarrow> (m\<lparr>ebml_read_version := int_of_u64 v\<rparr>, h')
         | (Inl err, h') \<Rightarrow> (m, h'))
      else if elem_id child = EBML_ID_DOCTYPE then
        (case ebml_read_string h child 32 of
           (Inr s, h') \<Rightarrow> (m\<lparr>doctype := s\<rparr>, h')
         | (Inl err, h') \<Rightarrow> (m, h'))
      else if elem_id child = EBML_ID_DOCTYPE_VERSION then
        (case ebml_read_uint h child of
           (Inr v, h') \<Rightarrow> (m\<lparr>doctype_version := int_of_u64 v\<rparr>, h')
         | (Inl err, h') \<Rightarrow> (m, h'))
      else if elem_id child = EBML_ID_DOCTYPE_READ_VER then
        (case ebml_read_uint h child of
           (Inr v, h') \<Rightarrow> (m\<lparr>doctype_read_version := int_of_u64 v\<rparr>, h')
         | (Inl err, h') \<Rightarrow> (m, h'))
      else (m, h))"

lemma ebml_read_string_advances:
  "ebml_read_string h e n = (r, h') \<Longrightarrow> fpos h \<le> data_offset e \<Longrightarrow> advances h h'"
  by (auto simp: ebml_read_string_def split: prod.splits sum.splits if_splits
      dest!: file_read_advances
      dest: file_seek_advances[of h "data_offset e"] intro: advances_trans)

lemma header_child_advances:
  "header_child child h m = (m', h') \<Longrightarrow> fpos h \<le> data_offset child \<Longrightarrow> advances h h'"
  by (auto simp: header_child_def split: if_splits prod.splits sum.splits
      dest: ebml_read_uint_advances ebml_read_string_advances)

text \<open>
  The loop of \<open>mkv_parse_header\<close> over the children of the EBML header; unlike the other
  loops it returns the error of a failed \<open>ebml_skip_element\<close>.
\<close>

function header_loop :: "ebml_element \<Rightarrow> file_handle \<Rightarrow> mkv_file \<Rightarrow> mkv_file io" where
  "header_loop header h m =
     (if ebml_at_element_end h header then (Inr m, h)
      else case ebml_read_element_header h of
        (Inl err, h1) \<Rightarrow> (Inr m, h1)
      | (Inr child, h1) \<Rightarrow>
          (case header_child child h1 m of
             (m', h2) \<Rightarrow>
               (case ebml_skip_element h2 child of
                  (Inl err, h3) \<Rightarrow> (Inl err, h3)
                | (Inr u, h3) \<Rightarrow> header_loop header h3 m')))"
  by pat_completeness auto
termination
proof (relation "measure (\<lambda>(header, h, m). remaining h)", goal_cases)
  case 1
  show ?case by simp
next
  case (2 header h m x y b xa ya xb yb u)
  have r: "ebml_read_element_header h = (Inr b, y)" using 2 by simp
  have "advances y ya"
    using header_child_advances[of b y m xa ya] 2 ebml_read_element_header_ok[OF r] by simp
  from child_step_decreases[OF r this] 2 show ?case by (metis in_measure old.prod.case snd_conv)
qed

declare header_loop.simps [simp del]

definition str_matroska :: "u8 list" where
  "str_matroska = [0x6D, 0x61, 0x74, 0x72, 0x6F, 0x73, 0x6B, 0x61]"

definition str_webm :: "u8 list" where
  "str_webm = [0x77, 0x65, 0x62, 0x6D]"

definition mkv_parse_header :: "file_handle \<Rightarrow> mkv_file io" where
  "mkv_parse_header h =
     (case file_seek h 0 of
        (Inl err, h1) \<Rightarrow> (Inl err, h1)
      | (Inr u, h1) \<Rightarrow>
          (case ebml_read_element_header h1 of
             (Inl err, h2) \<Rightarrow> (Inl ErrNotEbml, h2)
           | (Inr header, h2) \<Rightarrow>
               if elem_id header \<noteq> EBML_ID_EBML then (Inl ErrNotEbml, h2)
               else (case header_loop header h2
                            (mkv_file_init\<lparr>ebml_version := 1, ebml_read_version := 1,
                               doctype_version := 1, doctype_read_version := 1, doctype := []\<rparr>) of
                       (Inl err, h3) \<Rightarrow> (Inl err, h3)
                     | (Inr m, h3) \<Rightarrow>
                         if doctype m \<noteq> str_matroska \<and> doctype m \<noteq> str_webm
                         then (Inl ErrNotMkv, h3)
                         else (Inr m, h3))))"

definition mkv_store_element_offset :: "mkv_file \<Rightarrow> u32 \<Rightarrow> int \<Rightarrow> mkv_file" where
  "mkv_store_element_offset m i offset =
     (if i = MKV_ID_SEEKHEAD then m\<lparr>seekhead_offset := offset\<rparr>
      else if i = MKV_ID_INFO then m\<lparr>info_offset := offset\<rparr>
      else if i = MKV_ID_TRACKS then m\<lparr>tracks_offset := offset\<rparr>
      else if i = MKV_ID_CUES then m\<lparr>cues_offset := offset\<rparr>
      else if i = MKV_ID_TAGS then m\<lparr>tags_offset := offset\<rparr>
      else if i = MKV_ID_CHAPTERS then m\<lparr>chapters_offset := offset\<rparr>
      else if i = MKV_ID_ATTACHMENTS then m\<lparr>attachments_offset := offset\<rparr>
      else if i = MKV_ID_CLUSTER then
        (if clusters_offset m < 0 then m\<lparr>clusters_offset := offset\<rparr> else m)
      else m)"

definition mkv_segment_to_absolute :: "mkv_file \<Rightarrow> u64 \<Rightarrow> int" where
  "mkv_segment_to_absolute m relative_position = segment_data_offset m + sint relative_position"

definition seek_parse_child ::
    "ebml_element \<Rightarrow> file_handle \<Rightarrow> u32 \<times> u64 \<Rightarrow> (u32 \<times> u64) \<times> file_handle" where
  "seek_parse_child child h st =
     (if elem_id child = MKV_ID_SEEK_ID then
        (case ebml_read_binary h child 4 of
           (Inr id_buf, h') \<Rightarrow>
             (if length id_buf > 0 \<and> length id_buf \<le> 4
              then (foldl (\<lambda>r b. push_bit 8 r OR ucast b) 0 id_buf, snd st)
              else st, h')
         | (Inl err, h') \<Rightarrow> (st, h'))
      else if elem_id child = MKV_ID_SEEK_POSITION then
        (case ebml_read_uint h child of
           (Inr v, h') \<Rightarrow> ((fst st, v), h')
         | (Inl err, h') \<Rightarrow> (st, h'))
      else (st, h))"

lemma ebml_read_binary_advances:
  "ebml_read_binary h e n = (r, h') \<Longrightarrow> fpos h \<le> data_offset e \<Longrightarrow> advances h h'"
  by (auto simp: ebml_read_binary_def Let_def split: prod.splits sum.splits if_splits
      dest!: file_read_advances
      dest: file_seek_advances[of h "data_offset e"] intro: advances_trans)

lemma seek_parse_child_advances:
  "seek_parse_child child h st = (st', h') \<Longrightarrow> fpos h \<le> data_offset child \<Longrightarrow> advances h h'"
  by (auto simp: seek_parse_child_def split: if_splits prod.splits sum.splits
      dest: ebml_read_binary_advances ebml_read_uint_advances)

function seek_parse_loop ::
    "ebml_element \<Rightarrow> file_handle \<Rightarrow> u32 \<times> u64 \<Rightarrow> (u32 \<times> u64) \<times> file_handle" where
  "seek_parse_loop seek_elem h st =
     (if ebml_at_element_end h seek_elem then (st, h)
      else case ebml_read_element_header h of
        (Inl err, h1) \<Rightarrow> (st, h1)
      | (Inr child, h1) \<Rightarrow>
          (case seek_parse_child child h1 st of
             (st', h2) \<Rightarrow> seek_parse_loop seek_elem (snd (ebml_skip_element h2 child)) st'))"
  by pat_completeness auto
termination
  by (relation "measure (\<lambda>(seek_elem, h, st). remaining h)")
    (auto intro!: child_step_decreases_sym
          intro: seek_parse_child_advances[OF sym] header_data_offset_sym)

declare seek_parse_loop.simps [simp del]

lemma seek_parse_loop_advances: "advances h (snd (seek_parse_loop seek_elem h st))"
proof (induction seek_elem h st rule: seek_parse_loop.induct)
  case (1 seek_elem h st)
  show ?case
  proof (cases "ebml_read_element_header h")
    case (Pair x h1)
    show ?thesis
    proof (cases x)
      case (Inl err)
      with Pair ebml_read_element_header_advances[OF Pair] show ?thesis
        by (simp add: seek_parse_loop.simps[of seek_elem h])
    next
      case (Inr child)
      note r = Pair[unfolded Inr]
      obtain st' h2 where c: "seek_parse_child child h1 st = (st', h2)"
        by (cases "seek_parse_child child h1 st")
      have a2: "advances h1 h2"
        using seek_parse_child_advances[OF c] ebml_read_element_header_ok[OF r] by simp
      note a3 = child_step_advances[OF r a2]
      show ?thesis
      proof (cases "ebml_at_element_end h seek_elem")
        case True
        then show ?thesis by (simp add: seek_parse_loop.simps[of seek_elem h])
      next
        case False
        from 1[OF False Pair[symmetric] Inr c[symmetric]] a3 False Pair Inr c
        show ?thesis
          by (auto simp: seek_parse_loop.simps[of seek_elem h] intro: advances_trans)
      qed
    qed
  qed
qed

function mkv_parse_seekhead_loop :: "ebml_element \<Rightarrow> file_handle \<Rightarrow> mkv_file \<Rightarrow> mkv_file \<times> file_handle" where
  "mkv_parse_seekhead_loop seekhead h m =
     (if ebml_at_element_end h seekhead then (m, h)
      else case ebml_read_element_header h of
        (Inl err, h1) \<Rightarrow> (m, h1)
      | (Inr seek_elem, h1) \<Rightarrow>
          if elem_id seek_elem \<noteq> MKV_ID_SEEK then
            mkv_parse_seekhead_loop seekhead (snd (ebml_skip_element h1 seek_elem)) m
          else
            (case seek_parse_loop seek_elem h1 (0, 0) of
               ((sid, seek_position), h2) \<Rightarrow>
                 mkv_parse_seekhead_loop seekhead h2
                   (if sid \<noteq> 0
                    then mkv_store_element_offset m sid (mkv_segment_to_absolute m seek_position)
                    else m)))"
  by pat_completeness auto
termination
proof (relation "measure (\<lambda>(seekhead, h, m). remaining h)", goal_cases)
  case 1
  show ?case by simp
next
  case (2 seekhead h m x y b)
  then show ?case
    using child_step_decreases[of h b y y] by simp
next
  case (3 seekhead h m x y b xa ya xb yb)
  have r: "ebml_read_element_header h = (Inr b, y)" using 3 by simp
  have "advances y ya" using seek_parse_loop_advances[of y b "(0, 0)"] 3 by (metis snd_conv)
  with ebml_read_element_header_ok[OF r] ebml_read_element_header_advances[OF r]
  show ?case by (auto simp: remaining_def advances_def file_size_def)
qed

declare mkv_parse_seekhead_loop.simps [simp del]

definition mkv_parse_seekhead :: "mkv_file \<Rightarrow> file_handle \<Rightarrow> ebml_element \<Rightarrow> mkv_file \<times> file_handle" where
  "mkv_parse_seekhead m h seekhead =
     (case file_seek h (data_offset seekhead) of
        (Inl err, h1) \<Rightarrow> (m, h1)
      | (Inr u, h1) \<Rightarrow> mkv_parse_seekhead_loop seekhead h1 m)"

text \<open>
  The prologue scan: the loop \<open>while (file_tell(handle) < segment_end)\<close> of
  \<open>mkv_scan_structure\<close>, which stops at the first Cluster.
\<close>

function mkv_scan_loop :: "int \<Rightarrow> file_handle \<Rightarrow> mkv_file \<Rightarrow> mkv_file \<times> file_handle" where
  "mkv_scan_loop segment_end h m =
     (if \<not> file_tell h < segment_end then (m, h)
      else let elem_offset = file_tell h
           in case ebml_read_element_header h of
                (Inl err, h1) \<Rightarrow> (m, h1)
              | (Inr elem, h1) \<Rightarrow>
                  let m1 = mkv_store_element_offset m (elem_id elem) elem_offset;
                      total_size = (word_of_int (data_offset elem - elem_offset) :: u64) + elem_size elem;
                      m2 = (if elem_id elem = EBML_ID_VOID \<and>
                               (void_offset m1 < 0 \<or> total_size > void_size m1)
                            then m1\<lparr>void_offset := elem_offset, void_size := total_size\<rparr>
                            else m1)
                  in if elem_id elem = MKV_ID_CLUSTER then (m2, h1)
                     else (case ebml_skip_element h1 elem of
                             (Inl err, h2) \<Rightarrow> (m2, h2)
                           | (Inr u, h2) \<Rightarrow> mkv_scan_loop segment_end h2 m2))"
  by pat_completeness auto
termination
proof (relation "measure (\<lambda>(segment_end, h, m). remaining h)", goal_cases)
  case 1
  show ?case by simp
next
  case (2 segment_end h m elem_offset x y b m1 total_size m2 xa ya u)
  have r: "ebml_read_element_header h = (Inr b, y)" using 2 by simp
  from child_step_decreases[OF r advances_refl] 2 show ?case
    by (metis in_measure old.prod.case snd_conv)
qed

declare mkv_scan_loop.simps [simp del]

definition mkv_scan_structure :: "mkv_file \<Rightarrow> file_handle \<Rightarrow> mkv_file io" where
  "mkv_scan_structure m h =
     (case file_seek h (segment_data_offset m) of
        (Inl err, h1) \<Rightarrow> (Inl err, h1)
      | (Inr u, h1) \<Rightarrow>
          let segment_end = (if segment_unknown_size m then file_size h1
                             else segment_data_offset m + sint (segment_size m))
          in (case mkv_scan_loop segment_end h1 m of (m', h2) \<Rightarrow> (Inr m', h2)))"

definition mkv_parse_structure :: "mkv_file \<Rightarrow> file_handle \<Rightarrow> mkv_file io" where
  "mkv_parse_structure m0 h =
     (case ebml_read_element_header h of
        (Inl err, h1) \<Rightarrow> (Inl ErrNotMkv, h1)
      | (Inr segment, h1) \<Rightarrow>
          if elem_id segment \<noteq> MKV_ID_SEGMENT then (Inl ErrNotMkv, h1)
          else
            let m = m0\<lparr>segment_offset := data_offset segment - int (id_length segment)
                                            - int (size_length segment),
                       segment_data_offset := data_offset segment,
                       segment_size := elem_size segment,
                       segment_unknown_size := is_unknown_size segment\<rparr>
            in (case mkv_scan_structure m h1 of
                  (Inl err, h2) \<Rightarrow> (Inl err, h2)
                | (Inr m1, h2) \<Rightarrow>
                    if seekhead_offset m1 \<ge> 0 then
                      (case file_seek h2 (seekhead_offset m1) of
                         (Inl err, h3) \<Rightarrow> (Inl err, h3)
                       | (Inr u, h3) \<Rightarrow>
                           (case ebml_read_element_header h3 of
                              (Inr seekhead, h4) \<Rightarrow>
                                if elem_id seekhead = MKV_ID_SEEKHEAD
                                then (case mkv_parse_seekhead m1 h4 seekhead of
                                        (m2, h5) \<Rightarrow> (Inr m2, h5))
                                else (Inr m1, h4)
                            | (Inl err, h4) \<Rightarrow> (Inr m1, h4)))
                    else (Inr m1, h2)))"

section \<open>SeekHead update (\<open>mkv_seekhead.c\<close>)\<close>

text \<open>
  The state of the scan of one Seek entry: \<open>seek_id\<close>, \<open>position_data_offset\<close> and
  \<open>position_data_size\<close> (the latter is \<open>(int)child.size\<close>).
\<close>

record seek_scan =
  seek_id :: u32
  position_data_offset :: int
  position_data_size :: int

definition seek_entry_child :: "ebml_element \<Rightarrow> file_handle \<Rightarrow> seek_scan \<Rightarrow> seek_scan \<times> file_handle" where
  "seek_entry_child child h st =
     (if elem_id child = MKV_ID_SEEK_ID then
        (case ebml_read_binary h child 4 of
           (Inr id_buf, h') \<Rightarrow>
             (if length id_buf > 0 \<and> length id_buf \<le> 4
              then st\<lparr>seek_id := foldl (\<lambda>r b. push_bit 8 r OR ucast b) 0 id_buf\<rparr>
              else st, h')
         | (Inl err, h') \<Rightarrow> (st, h'))
      else if elem_id child = MKV_ID_SEEK_POSITION then
        (st\<lparr>position_data_offset := data_offset child,
            position_data_size := sint (ucast (elem_size child) :: u32)\<rparr>, h)
      else (st, h))"

lemma seek_entry_child_advances:
  "seek_entry_child child h st = (st', h') \<Longrightarrow> fpos h \<le> data_offset child \<Longrightarrow> advances h h'"
  by (auto simp: seek_entry_child_def split: if_splits prod.splits sum.splits
      dest: ebml_read_binary_advances)

function seek_entry_loop :: "ebml_element \<Rightarrow> file_handle \<Rightarrow> seek_scan \<Rightarrow> seek_scan \<times> file_handle" where
  "seek_entry_loop seek_elem h st =
     (if ebml_at_element_end h seek_elem then (st, h)
      else case ebml_read_element_header h of
        (Inl err, h1) \<Rightarrow> (st, h1)
      | (Inr child, h1) \<Rightarrow>
          (case seek_entry_child child h1 st of
             (st', h2) \<Rightarrow> seek_entry_loop seek_elem (snd (ebml_skip_element h2 child)) st'))"
  by pat_completeness auto
termination
  by (relation "measure (\<lambda>(seek_elem, h, st). remaining h)")
    (auto intro!: child_step_decreases_sym
          intro: seek_entry_child_advances[OF sym] header_data_offset_sym)

declare seek_entry_loop.simps [simp del]

lemma seek_entry_loop_advances: "advances h (snd (seek_entry_loop seek_elem h st))"
proof (induction seek_elem h st rule: seek_entry_loop.induct)
  case (1 seek_elem h st)
  show ?case
  proof (cases "ebml_read_element_header h")
    case (Pair x h1)
    show ?thesis
    proof (cases x)
      case (Inl err)
      with Pair ebml_read_element_header_advances[OF Pair] show ?thesis
        by (simp add: seek_entry_loop.simps[of seek_elem h])
    next
      case (Inr child)
      note r = Pair[unfolded Inr]
      obtain st' h2 where c: "seek_entry_child child h1 st = (st', h2)"
        by (cases "seek_entry_child child h1 st")
      have a2: "advances h1 h2"
        using seek_entry_child_advances[OF c] ebml_read_element_header_ok[OF r] by simp
      note a3 = child_step_advances[OF r a2]
      show ?thesis
      proof (cases "ebml_at_element_end h seek_elem")
        case True
        then show ?thesis by (simp add: seek_entry_loop.simps[of seek_elem h])
      next
        case False
        from 1[OF False Pair[symmetric] Inr c[symmetric]] a3 False Pair Inr c
        show ?thesis
          by (auto simp: seek_entry_loop.simps[of seek_elem h] intro: advances_trans)
      qed
    qed
  qed
qed

definition new_seek_scan :: seek_scan where
  "new_seek_scan = \<lparr>seek_id = 0, position_data_offset = - 1, position_data_size = 0\<rparr>"

text \<open>
  The in-place rewrite of a found Tags entry: the new position in \<open>position_data_size\<close>
  big-endian bytes; when the value does not fit (\<open>val != 0\<close> after the shifts) the update
  is skipped. A SeekPosition wider than the 8-byte \<open>pos_buf\<close> is outside the model.
\<close>

definition seek_position_rewrite :: "mkv_file \<Rightarrow> file_handle \<Rightarrow> int \<Rightarrow> seek_scan \<Rightarrow> unit io" where
  "seek_position_rewrite mkv h tags_off st =
     (let new_pos = mkv_absolute_to_segment mkv tags_off;
          n = nat (position_data_size st);
          pos_buf = be_bytes n new_pos;
          v = drop_bit (8 * n) new_pos
      in if v \<noteq> 0 then (Inr (), h)
         else case file_seek h (position_data_offset st) of
           (Inl err, h1) \<Rightarrow> (Inl err, h1)
         | (Inr u, h1) \<Rightarrow> file_write h1 pos_buf)"

function seekhead_loop :: "mkv_file \<Rightarrow> int \<Rightarrow> ebml_element \<Rightarrow> file_handle \<Rightarrow> unit io" where
  "seekhead_loop mkv tags_off seekhead h =
     (if ebml_at_element_end h seekhead then (Inr (), h)
      else case ebml_read_element_header h of
        (Inl err, h1) \<Rightarrow> (Inr (), h1)
      | (Inr seek_elem, h1) \<Rightarrow>
          if elem_id seek_elem \<noteq> MKV_ID_SEEK then
            seekhead_loop mkv tags_off seekhead (snd (ebml_skip_element h1 seek_elem))
          else
            (case seek_entry_loop seek_elem h1 new_seek_scan of
               (st, h2) \<Rightarrow>
                 if seek_id st = MKV_ID_TAGS \<and> position_data_offset st \<ge> 0
                    \<and> position_data_size st > 0
                 then seek_position_rewrite mkv h2 tags_off st
                 else seekhead_loop mkv tags_off seekhead h2))"
  by pat_completeness auto
termination
proof (relation "measure (\<lambda>(mkv, tags_off, seekhead, h). remaining h)", goal_cases)
  case 1
  show ?case by simp
next
  case (2 mkv tags_off seekhead h x y b)
  then show ?case
    using child_step_decreases[of h b y y] by simp
next
  case (3 mkv tags_off seekhead h x y b xa ya)
  have r: "ebml_read_element_header h = (Inr b, y)" using 3 by simp
  have "advances y ya" using seek_entry_loop_advances[of y b new_seek_scan] 3 by (metis snd_conv)
  with ebml_read_element_header_ok[OF r] ebml_read_element_header_advances[OF r]
  show ?case by (auto simp: remaining_def advances_def file_size_def)
qed

declare seekhead_loop.simps [simp del]

definition mkv_seekhead_update_tags :: "mkv_file \<Rightarrow> file_handle \<Rightarrow> int \<Rightarrow> unit io" where
  "mkv_seekhead_update_tags mkv h tags_off =
     (if seekhead_offset mkv < 0 then (Inr (), h)
      else case file_seek h (seekhead_offset mkv) of
        (Inl err, h1) \<Rightarrow> (Inl err, h1)
      | (Inr u, h1) \<Rightarrow>
          (case ebml_read_element_header h1 of
             (Inl err, h2) \<Rightarrow> (Inr (), h2)
           | (Inr seekhead, h2) \<Rightarrow>
               if elem_id seekhead \<noteq> MKV_ID_SEEKHEAD then (Inr (), h2)
               else seekhead_loop mkv tags_off seekhead h2))"


section \<open>String utilities (\<open>string_util.c\<close>)\<close>

text \<open>\<open>tolower\<close> in the C locale, on \<open>(unsigned char)\<close> values.\<close>

definition tolower :: "u8 \<Rightarrow> int" where
  "tolower c = (if 0x41 \<le> c \<and> c \<le> 0x5A then uint c + 32 else uint c)"

fun str_casecmp :: "u8 list \<Rightarrow> u8 list \<Rightarrow> int" where
  "str_casecmp (a # as) (b # bs) =
     (let diff = tolower a - tolower b in if diff \<noteq> 0 then diff else str_casecmp as bs)"
| "str_casecmp [] (b # bs) = tolower 0 - tolower b"
| "str_casecmp (a # as) [] = tolower a - tolower 0"
| "str_casecmp [] [] = 0"

text \<open>
  \<open>str_copy\<close> into a buffer of \<open>dst_size\<close> bytes: the copied string, or \<open>None\<close> for the
  return value \<open>-1\<close> (no room for the string and its terminator).
\<close>

definition str_copy :: "nat \<Rightarrow> u8 list \<Rightarrow> u8 list option" where
  "str_copy dst_size src =
     (if dst_size = 0 then None
      else if length src \<ge> dst_size then None
      else Some src)"

section \<open>Public API (\<open>mkvtag.c\<close>)\<close>

record mkvtag_context =
  fhandle :: file_handle
  mkv :: mkv_file
  is_open :: bool
  is_writable :: bool
  cached_tags :: "collection option"

type_synonym 'a api = "(error + 'a) \<times> mkvtag_context"

definition mkvtag_read_tags :: "mkvtag_context \<Rightarrow> collection api" where
  "mkvtag_read_tags ctx =
     (if \<not> is_open ctx then (Inl ErrNotOpen, ctx)
      else case cached_tags ctx of
        Some tags \<Rightarrow> (Inr tags, ctx)
      | None \<Rightarrow>
          if tags_offset (mkv ctx) < 0 then (Inl ErrNoTags, ctx)
          else (case file_seek (fhandle ctx) (tags_offset (mkv ctx)) of
                  (Inl err, h1) \<Rightarrow> (Inl err, ctx\<lparr>fhandle := h1\<rparr>)
                | (Inr u, h1) \<Rightarrow>
                    (case ebml_read_element_header h1 of
                       (Inl err, h2) \<Rightarrow> (Inl err, ctx\<lparr>fhandle := h2\<rparr>)
                     | (Inr tags_element, h2) \<Rightarrow>
                         if elem_id tags_element \<noteq> MKV_ID_TAGS
                         then (Inl ErrCorrupt, ctx\<lparr>fhandle := h2\<rparr>)
                         else (case mkv_tags_parse h2 tags_element of
                                 (Inl err, h3) \<Rightarrow> (Inl err, ctx\<lparr>fhandle := h3\<rparr>)
                               | (Inr coll, h3) \<Rightarrow>
                                   (Inr coll, ctx\<lparr>fhandle := h3, cached_tags := Some coll\<rparr>)))))"

text \<open>
  The search of \<open>mkvtag_read_tag_string\<close>: the inner \<open>while (stag)\<close> over one tag's simple
  tags and the outer \<open>while (tag)\<close>. \<open>None\<close> means the loop ran to its end; a match whose
  value does not fit the buffer ends the search with \<open>TagTooLarge\<close>.
\<close>

fun find_in_simple_tags :: "u8 list \<Rightarrow> nat \<Rightarrow> simple_tag list \<Rightarrow> (error + u8 list) option" where
  "find_in_simple_tags nm sz [] = None"
| "find_in_simple_tags nm sz (stag # rest) =
     (case name stag of
        Some n \<Rightarrow>
          if str_casecmp n nm = 0 then
            (case val stag of
               Some v \<Rightarrow>
                 (case str_copy sz v of
                    None \<Rightarrow> Some (Inl ErrTagTooLarge)
                  | Some copied \<Rightarrow> Some (Inr copied))
             | None \<Rightarrow> find_in_simple_tags nm sz rest)
          else find_in_simple_tags nm sz rest
      | None \<Rightarrow> find_in_simple_tags nm sz rest)"

fun find_in_tags :: "u8 list \<Rightarrow> nat \<Rightarrow> tag list \<Rightarrow> error + u8 list" where
  "find_in_tags nm sz [] = Inl ErrTagNotFound"
| "find_in_tags nm sz (t # rest) =
     (case find_in_simple_tags nm sz (simple_tags t) of
        Some r \<Rightarrow> r
      | None \<Rightarrow> find_in_tags nm sz rest)"

definition mkvtag_read_tag_string :: "mkvtag_context \<Rightarrow> u8 list \<Rightarrow> nat \<Rightarrow> (u8 list) api" where
  "mkvtag_read_tag_string ctx nm sz =
     (if sz = 0 then (Inl ErrInvalidArg, ctx)
      else case mkvtag_read_tags ctx of
        (Inl err, ctx1) \<Rightarrow> (Inl err, ctx1)
      | (Inr tags, ctx1) \<Rightarrow> (find_in_tags nm sz tags, ctx1))"

subsection \<open>Tag writing\<close>

definition write_tags_at :: "file_handle \<Rightarrow> int \<Rightarrow> u64 \<Rightarrow> collection \<Rightarrow> unit io" where
  "write_tags_at h offset available_space tags =
     (case build_tags_element tags of
        Inl err \<Rightarrow> (Inl err, h)
      | Inr tags_buf \<Rightarrow>
          if length tags_buf > unat available_space then (Inl ErrNoSpace, h)
          else (case file_seek h offset of
                  (Inl err, h1) \<Rightarrow> (Inl err, h1)
                | (Inr u, h1) \<Rightarrow>
                    (case file_write h1 tags_buf of
                       (Inl err, h2) \<Rightarrow> (Inl err, h2)
                     | (Inr u, h2) \<Rightarrow>
                         let remaining = available_space - of_nat (length tags_buf)
                         in if remaining \<ge> 2 then
                              (case ebml_write_void_element [] remaining of
                                 Inl err \<Rightarrow> (Inl err, h2)
                               | Inr void_buf \<Rightarrow> file_write h2 void_buf)
                            else if remaining = 1 then file_write h2 [0]
                            else (Inr (), h2))))"

text \<open>
  The slot of Strategy 1: the span of the element at \<open>tags_offset\<close> plus, when the element
  right after it is a Void, that Void's span. The last component is the handle after the
  probing reads.
\<close>

definition existing_slot :: "mkvtag_context \<Rightarrow> u64 io" where
  "existing_slot ctx =
     (case file_seek (fhandle ctx) (tags_offset (mkv ctx)) of
        (Inl err, h1) \<Rightarrow> (Inl err, h1)
      | (Inr u, h1) \<Rightarrow>
          (case ebml_read_element_header h1 of
             (Inl err, h2) \<Rightarrow> (Inl err, h2)
           | (Inr existing_tags, h2) \<Rightarrow>
               let existing_end = end_offset existing_tags;
                   available = (word_of_int (existing_end - tags_offset (mkv ctx)) :: u64)
               in (case file_seek h2 existing_end of
                     (Inl err, h3) \<Rightarrow> (Inr available, h3)
                   | (Inr u, h3) \<Rightarrow>
                       (case ebml_peek_element_header h3 of
                          (Inr next_elem, h4) \<Rightarrow>
                            if elem_id next_elem = EBML_ID_VOID
                            then (Inr (available + word_of_int (end_offset next_elem - existing_end)), h4)
                            else (Inr available, h4)
                        | (Inl err, h4) \<Rightarrow> (Inr available, h4)))))"

definition try_replace_existing_tags :: "mkvtag_context \<Rightarrow> collection \<Rightarrow> unit api" where
  "try_replace_existing_tags ctx tags =
     (if tags_offset (mkv ctx) < 0 then (Inl ErrNoTags, ctx)
      else case existing_slot ctx of
        (Inl err, h) \<Rightarrow> (Inl err, ctx\<lparr>fhandle := h\<rparr>)
      | (Inr available, h) \<Rightarrow>
          (case write_tags_at h (tags_offset (mkv ctx)) available tags of
             (Inr u, h1) \<Rightarrow>
               (Inr (), ctx\<lparr>fhandle := snd (mkv_seekhead_update_tags (mkv ctx) h1 (tags_offset (mkv ctx)))\<rparr>)
           | (Inl err, h1) \<Rightarrow> (Inl err, ctx\<lparr>fhandle := h1\<rparr>)))"

definition try_replace_void :: "mkvtag_context \<Rightarrow> collection \<Rightarrow> unit api" where
  "try_replace_void ctx tags =
     (if void_offset (mkv ctx) < 0 \<or> void_size (mkv ctx) = 0 then (Inl ErrNoSpace, ctx)
      else case write_tags_at (fhandle ctx) (void_offset (mkv ctx)) (void_size (mkv ctx)) tags of
        (Inr u, h1) \<Rightarrow>
          (let mkv1 = (mkv ctx)\<lparr>tags_offset := void_offset (mkv ctx)\<rparr>
           in (Inr (), ctx\<lparr>mkv := mkv1,
                            fhandle := snd (mkv_seekhead_update_tags mkv1 h1 (tags_offset mkv1))\<rparr>))
      | (Inl err, h1) \<Rightarrow> (Inl err, ctx\<lparr>fhandle := h1\<rparr>))"

text \<open>
  The step of \<open>try_append_tags\<close> that patches the Segment size in place, for a Segment of
  known size: the new size is re-encoded in the width of the existing size field.
\<close>

definition update_segment_size :: "mkvtag_context \<Rightarrow> nat \<Rightarrow> unit api" where
  "update_segment_size ctx tags_buf_size =
     (let new_segment_size = segment_size (mkv ctx) + of_nat tags_buf_size;
          size_offset = segment_offset (mkv ctx) + int (ebml_id_size MKV_ID_SEGMENT)
      in case file_seek (fhandle ctx) size_offset of
           (Inl err, h1) \<Rightarrow> (Inl err, ctx\<lparr>fhandle := h1\<rparr>)
         | (Inr u, h1) \<Rightarrow>
             (case file_read h1 1 of
                (Inl err, h2) \<Rightarrow> (Inl err, ctx\<lparr>fhandle := h2\<rparr>)
              | (Inr first_byte, h2) \<Rightarrow>
                  let current_size_len = ebml_vint_length (first_byte ! 0)
                  in (case ebml_vint_encode_fixed new_segment_size current_size_len of
                        Inl err \<Rightarrow> (Inl ErrNoSpace, ctx\<lparr>fhandle := h2\<rparr>)
                      | Inr new_size_bytes \<Rightarrow>
                          (case file_seek h2 size_offset of
                             (Inl err, h3) \<Rightarrow> (Inl err, ctx\<lparr>fhandle := h3\<rparr>)
                           | (Inr u, h3) \<Rightarrow>
                               (case file_write h3 new_size_bytes of
                                  (Inl err, h4) \<Rightarrow> (Inl err, ctx\<lparr>fhandle := h4\<rparr>)
                                | (Inr u, h4) \<Rightarrow>
                                    (Inr (), ctx\<lparr>fhandle := h4,
                                       mkv := (mkv ctx)\<lparr>segment_size := new_segment_size\<rparr>\<rparr>))))))"

text \<open>
  The step of \<open>try_append_tags\<close> that overwrites the old Tags element with a Void of the
  same span; every failure in it is ignored.
\<close>

definition void_out_old_tags :: "mkvtag_context \<Rightarrow> file_handle" where
  "void_out_old_tags ctx =
     (if tags_offset (mkv ctx) \<ge> 0 then
        (case file_seek (fhandle ctx) (tags_offset (mkv ctx)) of
           (Inl err, h1) \<Rightarrow> h1
         | (Inr u, h1) \<Rightarrow>
             (case ebml_read_element_header h1 of
                (Inl err, h2) \<Rightarrow> h2
              | (Inr old_tags, h2) \<Rightarrow>
                  let old_total = (word_of_int (end_offset old_tags - tags_offset (mkv ctx)) :: u64)
                  in if old_total \<ge> 2 then
                       (case ebml_write_void_element [] old_total of
                          Inr void_buf \<Rightarrow>
                            snd (file_write (snd (file_seek h2 (tags_offset (mkv ctx)))) void_buf)
                        | Inl err \<Rightarrow> h2)
                     else h2))
      else fhandle ctx)"

definition try_append_tags :: "mkvtag_context \<Rightarrow> collection \<Rightarrow> unit api" where
  "try_append_tags ctx tags =
     (let segment_content_end =
            (if segment_unknown_size (mkv ctx) then file_size (fhandle ctx)
             else segment_data_offset (mkv ctx) + sint (segment_size (mkv ctx)))
      in case build_tags_element tags of
           Inl err \<Rightarrow> (Inl err, ctx)
         | Inr tags_buf \<Rightarrow>
             (case (if \<not> segment_unknown_size (mkv ctx)
                    then update_segment_size ctx (length tags_buf) else (Inr (), ctx)) of
                (Inl err, ctx1) \<Rightarrow> (Inl err, ctx1)
              | (Inr u, ctx1) \<Rightarrow>
                  (case file_seek (fhandle ctx1) segment_content_end of
                     (Inl err, h1) \<Rightarrow> (Inl err, ctx1\<lparr>fhandle := h1\<rparr>)
                   | (Inr u, h1) \<Rightarrow>
                       (case file_write h1 tags_buf of
                          (Inl err, h2) \<Rightarrow> (Inl err, ctx1\<lparr>fhandle := h2\<rparr>)
                        | (Inr u, h2) \<Rightarrow>
                            (case file_sync h2 of
                               (Inl err, h3) \<Rightarrow> (Inl err, ctx1\<lparr>fhandle := h3\<rparr>)
                             | (Inr u, h3) \<Rightarrow>
                                 let h4 = void_out_old_tags (ctx1\<lparr>fhandle := h3\<rparr>);
                                     mkv1 = (mkv ctx1)\<lparr>tags_offset := segment_content_end\<rparr>;
                                     h5 = snd (mkv_seekhead_update_tags mkv1 h4 segment_content_end)
                                 in (case file_sync h5 of
                                       (r, h6) \<Rightarrow> (r, ctx1\<lparr>mkv := mkv1, fhandle := h6\<rparr>)))))))"

text \<open>The \<open>return file_sync(ctx->file)\<close> that ends a successful Strategy 1 or 2.\<close>

definition sync_result :: "mkvtag_context \<Rightarrow> unit api" where
  "sync_result ctx = (case file_sync (fhandle ctx) of (r, h) \<Rightarrow> (r, ctx\<lparr>fhandle := h\<rparr>))"

definition mkvtag_write_tags :: "mkvtag_context \<Rightarrow> collection \<Rightarrow> unit api" where
  "mkvtag_write_tags ctx0 tags =
     (if \<not> is_open ctx0 then (Inl ErrNotOpen, ctx0)
      else if \<not> is_writable ctx0 then (Inl ErrReadOnly, ctx0)
      else let ctx = ctx0\<lparr>cached_tags := None\<rparr>
           in case (if tags_offset (mkv ctx) \<ge> 0 then try_replace_existing_tags ctx tags
                    else (Inl ErrNoTags, ctx)) of
                (Inr u, ctx1) \<Rightarrow> sync_result ctx1
              | (Inl err1, ctx1) \<Rightarrow>
                  (case try_replace_void ctx1 tags of
                     (Inr u, ctx2) \<Rightarrow> sync_result ctx2
                   | (Inl err2, ctx2) \<Rightarrow> try_append_tags ctx2 tags))"


subsection \<open>Collection building\<close>

text \<open>
  The builders append at the tail of the C lists. A new tag comes from \<open>calloc\<close> with only
  its target type set; a new simple tag has its name, its value and \<open>is_default = 1\<close>.
\<close>

definition mkvtag_collection_add_tag :: "collection \<Rightarrow> u32 \<Rightarrow> collection" where
  "mkvtag_collection_add_tag coll type = coll @ [new_tag\<lparr>target_type := type\<rparr>]"

definition made_simple_tag :: "u8 list \<Rightarrow> u8 list option \<Rightarrow> simple_tag" where
  "made_simple_tag nm v = SimpleTag (Some nm) v None None 1 []"

definition mkvtag_tag_add_simple :: "tag \<Rightarrow> u8 list \<Rightarrow> u8 list option \<Rightarrow> tag" where
  "mkvtag_tag_add_simple t nm v = t\<lparr>simple_tags := simple_tags t @ [made_simple_tag nm v]\<rparr>"

definition mkvtag_simple_tag_add_nested :: "simple_tag \<Rightarrow> u8 list \<Rightarrow> u8 list option \<Rightarrow> simple_tag" where
  "mkvtag_simple_tag_add_nested parent nm v =
     set_nested (nested parent @ [made_simple_tag nm v]) parent"

definition mkvtag_simple_tag_set_language :: "simple_tag \<Rightarrow> u8 list \<Rightarrow> simple_tag" where
  "mkvtag_simple_tag_set_language stag lang = set_language (Some lang) stag"

definition mkvtag_tag_add_track_uid :: "tag \<Rightarrow> u64 \<Rightarrow> tag" where
  "mkvtag_tag_add_track_uid t uid = t\<lparr>track_uids := track_uids t @ [uid]\<rparr>"

subsection \<open>Set and remove by name\<close>

text \<open>
  The inner loop of \<open>mkvtag_set_tag_string\<close> over the simple tags of one source tag,
  adding to the copy \<open>new_tag\<close>. A simple tag of an album-level tag whose name matches
  is replaced by a fresh \<open>(name, value)\<close>, or dropped when \<open>value\<close> is \<open>NULL\<close>; every other
  one is rebuilt by \<open>mkvtag_tag_add_simple\<close> from its name (or \<open>""\<close>) and value, and its
  language is set when present (the new node is shown complete when it is appended).
\<close>

fun copy_simple_tags :: "tag \<Rightarrow> u8 list \<Rightarrow> u8 list option \<Rightarrow> simple_tag list \<Rightarrow> tag \<Rightarrow> tag" where
  "copy_simple_tags src_tag nm v [] new_t = new_t"
| "copy_simple_tags src_tag nm v (src_stag # rest) new_t =
     (if target_type src_tag = MKVTAG_TARGET_ALBUM \<and>
         (case name src_stag of Some n \<Rightarrow> str_casecmp n nm = 0 | None \<Rightarrow> False)
      then (case v of
              None \<Rightarrow> copy_simple_tags src_tag nm v rest new_t
            | Some x \<Rightarrow> copy_simple_tags src_tag nm v rest (mkvtag_tag_add_simple new_t nm (Some x)))
      else
        (let new_stag = made_simple_tag (case name src_stag of Some n \<Rightarrow> n | None \<Rightarrow> [])
                          (val src_stag);
             new_stag = (case language src_stag of
                           Some l \<Rightarrow> mkvtag_simple_tag_set_language new_stag l
                         | None \<Rightarrow> new_stag)
         in copy_simple_tags src_tag nm v rest
              (new_t\<lparr>simple_tags := simple_tags new_t @ [new_stag]\<rparr>)))"

text \<open>
  The copy of one source tag: a new tag of the same target type, the target type string,
  the track UIDs, then the simple tags. Nothing else of the source tag is copied.
\<close>

definition copy_tag :: "u8 list \<Rightarrow> u8 list option \<Rightarrow> tag \<Rightarrow> tag" where
  "copy_tag nm v src_tag =
     copy_simple_tags src_tag nm v (simple_tags src_tag)
       (new_tag\<lparr>target_type := target_type src_tag,
                target_type_str := target_type_str src_tag,
                track_uids := track_uids src_tag\<rparr>)"

text \<open>The \<open>found_anywhere\<close> scan over the existing collection.\<close>

fun name_in_simple_tags :: "u8 list \<Rightarrow> simple_tag list \<Rightarrow> bool" where
  "name_in_simple_tags nm [] = False"
| "name_in_simple_tags nm (s # rest) =
     (case name s of
        Some n \<Rightarrow> if str_casecmp n nm = 0 then True else name_in_simple_tags nm rest
      | None \<Rightarrow> name_in_simple_tags nm rest)"

fun found_anywhere :: "u8 list \<Rightarrow> collection \<Rightarrow> bool" where
  "found_anywhere nm [] = False"
| "found_anywhere nm (check # rest) =
     (if target_type check = MKVTAG_TARGET_ALBUM \<and> name_in_simple_tags nm (simple_tags check)
      then True else found_anywhere nm rest)"

text \<open>
  Adding the new simple tag to the first album-level tag of the working collection, or
  to a new album-level tag appended to it.
\<close>

fun add_to_album_tag :: "collection \<Rightarrow> u8 list \<Rightarrow> u8 list \<Rightarrow> collection" where
  "add_to_album_tag [] nm v =
     [mkvtag_tag_add_simple (new_tag\<lparr>target_type := MKVTAG_TARGET_ALBUM\<rparr>) nm (Some v)]"
| "add_to_album_tag (t # ts) nm v =
     (if target_type t = MKVTAG_TARGET_ALBUM then mkvtag_tag_add_simple t nm (Some v) # ts
      else t # add_to_album_tag ts nm v)"

definition working_collection :: "(error + collection) \<Rightarrow> u8 list \<Rightarrow> u8 list option \<Rightarrow> collection" where
  "working_collection existing nm v =
     (case existing of
        Inr ex \<Rightarrow>
          (let working = map (copy_tag nm v) ex
           in case v of
                Some x \<Rightarrow> if \<not> found_anywhere nm ex then add_to_album_tag working nm x
                          else working
              | None \<Rightarrow> working)
      | Inl err \<Rightarrow>
          (case v of
             Some x \<Rightarrow> add_to_album_tag [] nm x
           | None \<Rightarrow> []))"

definition mkvtag_set_tag_string :: "mkvtag_context \<Rightarrow> u8 list \<Rightarrow> u8 list option \<Rightarrow> unit api" where
  "mkvtag_set_tag_string ctx nm v =
     (if \<not> is_open ctx then (Inl ErrNotOpen, ctx)
      else if \<not> is_writable ctx then (Inl ErrReadOnly, ctx)
      else case mkvtag_read_tags ctx of
        (existing, ctx1) \<Rightarrow> mkvtag_write_tags ctx1 (working_collection existing nm v))"

definition mkvtag_remove_tag :: "mkvtag_context \<Rightarrow> u8 list \<Rightarrow> unit api" where
  "mkvtag_remove_tag ctx nm = mkvtag_set_tag_string ctx nm None"


subsection \<open>Opening a file\<close>

text \<open>
  \<open>mkvtag_create\<close> gives a closed context. \<open>mkvtag_open_internal\<close> takes the bytes of the
  file at \<open>path\<close> in place of the path; the handle of a closed context is not used, and
  a failed open leaves the context as it was.
\<close>

definition mkvtag_create :: mkvtag_context where
  "mkvtag_create =
     \<lparr>fhandle = \<lparr>fbytes = [], fpos = 0, fwritable = False\<rparr>, mkv = mkv_file_init,
      is_open = False, is_writable = False, cached_tags = None\<rparr>"

definition mkvtag_open_internal :: "mkvtag_context \<Rightarrow> u8 list \<Rightarrow> bool \<Rightarrow> unit api" where
  "mkvtag_open_internal ctx content writable =
     (if is_open ctx then (Inl ErrAlreadyOpen, ctx)
      else let h = \<lparr>fbytes = content, fpos = 0, fwritable = writable\<rparr>
           in case mkv_parse_header h of
                (Inl err, h1) \<Rightarrow> (Inl err, ctx)
              | (Inr m, h1) \<Rightarrow>
                  (case mkv_parse_structure m h1 of
                     (Inl err, h2) \<Rightarrow> (Inl err, ctx)
                   | (Inr m1, h2) \<Rightarrow>
                       (Inr (), ctx\<lparr>fhandle := h2, mkv := m1, is_open := True,
                                     is_writable := writable\<rparr>)))"

definition mkvtag_open :: "mkvtag_context \<Rightarrow> u8 list \<Rightarrow> unit api" where
  "mkvtag_open ctx content = mkvtag_open_internal ctx content False"

definition mkvtag_open_rw :: "mkvtag_context \<Rightarrow> u8 list \<Rightarrow> unit api" where
  "mkvtag_open_rw ctx content = mkvtag_open_internal ctx content True"


lemma ebml_vint_size_upper:
  assumes "v \<le> EBML_VINT_MAX_8"
  shows "unat v \<le> 2 ^ (7 * ebml_vint_size v) - 2"
  using assms
  by (simp add: ebml_vint_size_def EBML_VINT_MAX_values word_le_nat_alt)

lemma ebml_vint_size_lower:
  assumes "1 < ebml_vint_size v"
  shows "2 ^ (7 * (ebml_vint_size v - 1)) - 2 < unat v"
  using assms
  by (simp add: ebml_vint_size_def EBML_VINT_MAX_values word_le_nat_alt split: if_splits)

lemma ebml_vint_size_least:
  assumes "1 \<le> n" "unat v \<le> 2 ^ (7 * n) - 2"
  shows "ebml_vint_size v \<le> n"
proof (rule ccontr)
  assume "\<not> ebml_vint_size v \<le> n"
  then have lt: "n < ebml_vint_size v" by simp
  then have "1 < ebml_vint_size v" using assms(1) by simp
  then have low: "2 ^ (7 * (ebml_vint_size v - 1)) - 2 < unat v" by (rule ebml_vint_size_lower)
  have "7 * n \<le> 7 * (ebml_vint_size v - 1)" using lt by simp
  then have "(2::nat) ^ (7 * n) \<le> 2 ^ (7 * (ebml_vint_size v - 1))"
    by (rule power_increasing) simp
  then have "(2::nat) ^ (7 * n) - 2 \<le> 2 ^ (7 * (ebml_vint_size v - 1)) - 2"
    by (rule diff_le_mono)
  with assms(2) low show False by simp
qed

text \<open>
  C7. For every \<open>v\<close> in \<open>[0, 2^56 - 2]\<close>, encoding \<open>v\<close> with \<open>ebml_vint_encode\<close> succeeds and
  decoding the produced bytes with \<open>ebml_vint_decode\<close> returns the pair
  \<open>(v, ebml_vint_size v)\<close>: the value itself and, as bytes consumed, the length of the
  encoding, which is the minimal VINT length of \<open>v\<close>: \<open>ebml_vint_size v\<close> lies in \<open>1..8\<close>,
  \<open>v \<le> 2^(7 n) - 2\<close> holds for \<open>n = ebml_vint_size v\<close>, and for no smaller \<open>n \<ge> 1\<close>.
\<close>

theorem C7_vint_roundtrip:
  fixes v :: u64
  assumes "v \<le> 2 ^ 56 - 2"
  shows "(\<exists>ds. ebml_vint_encode v = Inr ds \<and> length ds = ebml_vint_size v \<and>
               ebml_vint_decode ds = Inr (v, ebml_vint_size v)) \<and>
         1 \<le> ebml_vint_size v \<and> ebml_vint_size v \<le> 8 \<and>
         unat v \<le> 2 ^ (7 * ebml_vint_size v) - 2 \<and>
         (\<forall>n. 1 \<le> n \<longrightarrow> unat v \<le> 2 ^ (7 * n) - 2 \<longrightarrow> ebml_vint_size v \<le> n)"
proof -
  have m: "v \<le> EBML_VINT_MAX_8" using assms by (simp add: EBML_VINT_MAX_values)
  from ebml_vint_encode_decode[OF m] ebml_vint_size_range[OF m] ebml_vint_size_upper[OF m]
    ebml_vint_size_least[of _ v]
  show ?thesis by blast
qed

theorem C7_vint_roundtrip_witness:
  "(300 :: u64) \<le> 2 ^ 56 - 2 \<and>
   (\<exists>ds. ebml_vint_encode (300 :: u64) = Inr ds \<and> length ds = 2 \<and>
         ebml_vint_decode ds = Inr (300, 2)) \<and>
   ebml_vint_size 300 = 2 \<and>
   unat (300 :: u64) \<le> 2 ^ (7 * 2) - 2 \<and> \<not> unat (300 :: u64) \<le> 2 ^ (7 * 1) - 2"
proof -
  have h: "(300 :: u64) \<le> 2 ^ 56 - 2" by simp
  have s: "ebml_vint_size 300 = 2" by (simp add: ebml_vint_size_def EBML_VINT_MAX_values)
  have n: "\<not> unat (300 :: u64) \<le> 2 ^ (7 * 1) - 2" by simp
  from C7_vint_roundtrip[OF h] have
    "(\<exists>ds. ebml_vint_encode (300 :: u64) = Inr ds \<and> length ds = 2 \<and>
         ebml_vint_decode ds = Inr (300, 2)) \<and> unat (300 :: u64) \<le> 2 ^ (7 * 2) - 2"
    unfolding s by blast
  with h s n show ?thesis by blast
qed

section \<open>Signed integer elements\<close>

text \<open>
  The width the specification asks for: the least number of bytes \<open>n\<close> in \<open>1..8\<close> whose
  two's-complement range \<open>[-2^(8n-1), 2^(8n-1))\<close> contains the value.
\<close>

definition spec_int_fits :: "u64 \<Rightarrow> nat \<Rightarrow> bool" where
  "spec_int_fits v n = (- (2 ^ (8 * n - 1)) \<le> sint v \<and> sint v < 2 ^ (8 * n - 1))"

definition spec_int_min_bytes :: "u64 \<Rightarrow> nat" where
  "spec_int_min_bytes v =
     (if spec_int_fits v 1 then 1 else if spec_int_fits v 2 then 2
      else if spec_int_fits v 3 then 3 else if spec_int_fits v 4 then 4
      else if spec_int_fits v 5 then 5 else if spec_int_fits v 6 then 6
      else if spec_int_fits v 7 then 7 else 8)"

text \<open>
  C5. \<open>ebml_write_int_element\<close> is claimed to write every value with the minimum number of
  content bytes. At \<open>v = 2^31\<close>, which needs 5 bytes, the writer emits the size byte
  \<open>0x88\<close> and 8 content bytes: after the 4-byte range the code jumps to 8 bytes.
\<close>

theorem C5_int_element_not_minimal:
  "ebml_write_int_element [] 0xFB 2147483648 = Inr [0xFB, 0x88, 0, 0, 0, 0, 0x80, 0, 0, 0] \<and>
   spec_int_min_bytes 2147483648 = 5"
  by code_simp

section \<open>Serialization errors\<close>

lemma ebml_id_encode_error: "ebml_id_encode i = Inl e \<Longrightarrow> i = 0"
  by (simp add: ebml_id_encode_def split: if_splits)

lemma write_id_error: "write_id buf i = Inl e \<Longrightarrow> i = 0"
  by (auto simp: write_id_def ok_bind_def dest: ebml_id_encode_error split: sum.splits)

lemma ebml_vint_encode_error: "ebml_vint_encode v = Inl e \<Longrightarrow> e = ErrVintOverflow"
  by (auto simp: ebml_vint_encode_def ebml_vint_encode_fixed_def ebml_vint_size_def Let_def
      split: if_splits)

lemma write_size_error: "write_size buf v = Inl e \<Longrightarrow> e = ErrVintOverflow"
  by (auto simp: write_size_def ok_bind_def dest: ebml_vint_encode_error split: sum.splits)

lemma ok_bind_Inl: "ok_bind m f = Inl e \<Longrightarrow> m = Inl e \<or> (\<exists>x. m = Inr x \<and> f x = Inl e)"
  by (cases m) auto

lemma master_header_error:
  "ebml_write_master_element_header buf i n = Inl e \<Longrightarrow> i \<noteq> 0 \<Longrightarrow> e = ErrVintOverflow"
  by (auto simp: ebml_write_master_element_header_def dest!: ok_bind_Inl write_id_error write_size_error)

lemma uint_element_error:
  "ebml_write_uint_element buf i v = Inl e \<Longrightarrow> i \<noteq> 0 \<Longrightarrow> e = ErrVintOverflow"
  by (auto simp: ebml_write_uint_element_def Let_def dest!: ok_bind_Inl write_id_error write_size_error)

lemma string_element_error:
  "ebml_write_string_element buf i str = Inl e \<Longrightarrow> i \<noteq> 0 \<Longrightarrow> e = ErrVintOverflow"
  by (auto simp: ebml_write_string_element_def dest!: ok_bind_Inl write_id_error write_size_error)

lemma binary_element_error:
  "ebml_write_binary_element buf i d = Inl e \<Longrightarrow> i \<noteq> 0 \<Longrightarrow> e = ErrVintOverflow"
  by (auto simp: ebml_write_binary_element_def dest!: ok_bind_Inl write_id_error write_size_error)

lemma mkv_ids_nonzero:
  "MKV_ID_TAG \<noteq> 0" "MKV_ID_TARGETS \<noteq> 0" "MKV_ID_TARGET_TYPE_VALUE \<noteq> 0"
  "MKV_ID_TARGET_TYPE \<noteq> 0" "MKV_ID_TAG_TRACK_UID \<noteq> 0" "MKV_ID_TAG_EDITION_UID \<noteq> 0"
  "MKV_ID_TAG_CHAPTER_UID \<noteq> 0" "MKV_ID_TAG_ATTACHMENT_UID \<noteq> 0" "MKV_ID_SIMPLE_TAG \<noteq> 0"
  "MKV_ID_TAG_NAME \<noteq> 0" "MKV_ID_TAG_LANGUAGE \<noteq> 0" "MKV_ID_TAG_DEFAULT \<noteq> 0"
  "MKV_ID_TAG_STRING \<noteq> 0" "MKV_ID_TAG_BINARY \<noteq> 0" "MKV_ID_TAGS \<noteq> 0"
  by (simp_all add: mkv_ids)

lemma opt_string_error:
  "opt_elem p (ebml_write_string_element content i) content = Inl e \<Longrightarrow> i \<noteq> 0 \<Longrightarrow> e = ErrVintOverflow"
  by (cases p) (auto simp: opt_elem_def dest: string_element_error)

lemma simple_tag_fields_error: "simple_tag_fields st = Inl e \<Longrightarrow> e = ErrVintOverflow"
  unfolding simple_tag_fields_def
  by (auto dest!: ok_bind_Inl split: option.splits if_splits
           dest: opt_string_error[OF _ mkv_ids_nonzero(10)] opt_string_error[OF _ mkv_ids_nonzero(11)]
             opt_string_error[OF _ mkv_ids_nonzero(13)]
             uint_element_error[OF _ mkv_ids_nonzero(12)] binary_element_error[OF _ mkv_ids_nonzero(14)])

lemma serialize_simple_tag_error:
  "serialize_simple_tag st buf = Inl e \<longrightarrow> e = ErrVintOverflow"
  "serialize_simple_tag_list sts buf = Inl e \<longrightarrow> e = ErrVintOverflow"
proof (induction st buf and sts buf rule: serialize_simple_tag_serialize_simple_tag_list.induct)
  case (1 nm vl bin lang dflt nst buf)
  show ?case
    using 1
    by (auto simp del: ok_bind_simps dest!: ok_bind_Inl dest: simple_tag_fields_error
        master_header_error[OF _ mkv_ids_nonzero(9)])
next
  case (2 content)
  then show ?case by simp
next
  case (3 st sts content)
  then show ?case by (auto dest!: ok_bind_Inl)
qed

lemma write_uid_elements_error:
  "write_uid_elements i us content = Inl e \<Longrightarrow> i \<noteq> 0 \<Longrightarrow> e = ErrVintOverflow"
  by (induction us arbitrary: content) (auto dest!: ok_bind_Inl dest: uint_element_error)

lemma serialize_targets_error: "serialize_targets t buf = Inl e \<Longrightarrow> e = ErrVintOverflow"
  unfolding serialize_targets_def
  by (auto dest!: ok_bind_Inl
      dest: uint_element_error[OF _ mkv_ids_nonzero(3)] opt_string_error[OF _ mkv_ids_nonzero(4)]
        write_uid_elements_error[OF _ mkv_ids_nonzero(5)] write_uid_elements_error[OF _ mkv_ids_nonzero(6)]
        write_uid_elements_error[OF _ mkv_ids_nonzero(7)] write_uid_elements_error[OF _ mkv_ids_nonzero(8)]
        master_header_error[OF _ mkv_ids_nonzero(2)])

lemma serialize_tag_error: "serialize_tag t buf = Inl e \<Longrightarrow> e = ErrVintOverflow"
  unfolding serialize_tag_def
  by (auto dest!: ok_bind_Inl
      dest: serialize_targets_error serialize_simple_tag_error(2)[rule_format]
        master_header_error[OF _ mkv_ids_nonzero(1)])

lemma mkv_tags_serialize_error: "mkv_tags_serialize c buf = Inl e \<Longrightarrow> e = ErrVintOverflow"
  by (induction c arbitrary: buf) (auto dest!: ok_bind_Inl dest: serialize_tag_error)

definition nameless_collection :: collection where
  "nameless_collection =
     [\<lparr>target_type = 50, target_type_str = None, track_uids = [], edition_uids = [],
       chapter_uids = [], attachment_uids = [],
       simple_tags = [SimpleTag None (Some [0x58]) None None 1 []]\<rparr>]"

definition empty_name_collection :: collection where
  "empty_name_collection =
     [\<lparr>target_type = 50, target_type_str = None, track_uids = [], edition_uids = [],
       chapter_uids = [], attachment_uids = [],
       simple_tags = [SimpleTag (Some []) (Some [0x58]) None None 1 []]\<rparr>]"

text \<open>
  C4, as stated: a collection holding a simple tag whose name is absent, or empty, is
  rejected by serialization. It is not: with the name absent the TagName element is left
  out, with the name empty a zero-length TagName (\<open>45 A3 80\<close>) is written, and
  \<open>mkv_tags_serialize\<close> succeeds in both cases.
\<close>

theorem C4_nameless_serialized:
  "mkv_tags_serialize nameless_collection [] =
     Inr [0x73, 0x73, 0x8E, 0x63, 0xC0, 0x84, 0x68, 0xCA, 0x81, 0x32,
          0x67, 0xC8, 0x84, 0x44, 0x87, 0x81, 0x58] \<and>
   mkv_tags_serialize empty_name_collection [] =
     Inr [0x73, 0x73, 0x91, 0x63, 0xC0, 0x84, 0x68, 0xCA, 0x81, 0x32,
          0x67, 0xC8, 0x87, 0x45, 0xA3, 0x80, 0x44, 0x87, 0x81, 0x58]"
  by code_simp

text \<open>
  The pieces of the serialization of a simple tag built by
  \<open>mkvtag_tag_add_simple(tag, "", value)\<close>: a size below \<open>2^40\<close> always has a VINT, and
  the element IDs are constants.
\<close>

lemma write_size_ok:
  assumes "n < 2 ^ 40"
  shows "\<exists>vs. ebml_vint_encode (of_nat n) = Inr vs \<and> length vs \<le> 8 \<and>
              write_size buf (of_nat n) = Inr (buf @ vs)"
proof -
  have "n < 2 ^ 64" using assms by (rule less_trans) simp
  then have u: "unat (of_nat n :: u64) = n" by (simp add: unat_of_nat)
  have m: "(of_nat n :: u64) \<le> EBML_VINT_MAX_8"
    using assms by (simp add: word_le_nat_alt u EBML_VINT_MAX_values)
  from ebml_vint_encode_decode[OF m] ebml_vint_size_range[OF m]
  show ?thesis by (auto simp: write_size_def)
qed

lemma empty_name_element:
  "ebml_write_string_element [] MKV_ID_TAG_NAME [] = Inr [0x45, 0xA3, 0x80]"
  by code_simp

lemma tag_string_id: "ebml_id_encode MKV_ID_TAG_STRING = Inr [0x44, 0x87]"
  by code_simp

lemma simple_tag_id: "ebml_id_encode MKV_ID_SIMPLE_TAG = Inr [0x67, 0xC8]"
  by code_simp

lemma tag_id: "ebml_id_encode MKV_ID_TAG = Inr [0x73, 0x73]"
  by code_simp

lemma album_targets:
  "serialize_targets (new_tag\<lparr>target_type := MKVTAG_TARGET_ALBUM\<rparr>) [] =
     Inr [0x63, 0xC0, 0x84, 0x68, 0xCA, 0x81, 0x32]"
  by code_simp

lemma empty_name_simple_tag:
  assumes "length v < 2 ^ 32"
  shows "\<exists>vs hs. ebml_vint_encode (of_nat (length v)) = Inr vs \<and>
           ebml_vint_encode (of_nat (5 + length vs + length v)) = Inr hs \<and>
           length vs \<le> 8 \<and> length hs \<le> 8 \<and>
           serialize_simple_tag (made_simple_tag [] (Some v)) buf =
             Inr (buf @ [0x67, 0xC8] @ hs @ [0x45, 0xA3, 0x80, 0x44, 0x87] @ vs @ v)"
proof -
  have "length v < 2 ^ 40" using assms by (rule less_trans) simp
  from write_size_ok[OF this, of "[0x45, 0xA3, 0x80, 0x44, 0x87]"]
  obtain vs where vs: "ebml_vint_encode (of_nat (length v)) = Inr vs" "length vs \<le> 8"
    "write_size [0x45, 0xA3, 0x80, 0x44, 0x87] (of_nat (length v)) = Inr ([0x45, 0xA3, 0x80, 0x44, 0x87] @ vs)"
    by blast
  have val: "ebml_write_string_element [0x45, 0xA3, 0x80] MKV_ID_TAG_STRING v
               = Inr ([0x45, 0xA3, 0x80, 0x44, 0x87] @ vs @ v)"
    using vs(3) by (simp add: ebml_write_string_element_def write_id_def tag_string_id)
  have fields: "simple_tag_fields (made_simple_tag [] (Some v)) = Inr ([0x45, 0xA3, 0x80, 0x44, 0x87] @ vs @ v)"
    by (simp add: simple_tag_fields_def made_simple_tag_def opt_elem_def empty_name_element val)
  define c where "c = [0x45, 0xA3, 0x80, 0x44, 0x87] @ vs @ v"
  have lc: "length c = 5 + length vs + length v" by (simp add: c_def)
  have fc: "simple_tag_fields (SimpleTag (Some []) (Some v) None None 1 []) = Inr c"
    using fields by (simp only: c_def made_simple_tag_def)
  have "length c < 2 ^ 40" using assms vs(2) unfolding lc by simp
  from write_size_ok[OF this, of "buf @ [0x67, 0xC8]"]
  obtain hs where hs: "ebml_vint_encode (of_nat (length c)) = Inr hs" "length hs \<le> 8"
    "write_size (buf @ [0x67, 0xC8]) (of_nat (length c)) = Inr ((buf @ [0x67, 0xC8]) @ hs)"
    by blast
  have "serialize_simple_tag (made_simple_tag [] (Some v)) buf = Inr (((buf @ [0x67, 0xC8]) @ hs) @ c)"
    using hs(3)
    by (simp add: made_simple_tag_def fc ebml_write_master_element_header_def write_id_def simple_tag_id)
  then have "serialize_simple_tag (made_simple_tag [] (Some v)) buf =
          Inr (buf @ [0x67, 0xC8] @ hs @ [0x45, 0xA3, 0x80, 0x44, 0x87] @ vs @ v)"
    by (simp add: c_def)
  with vs hs(1)[unfolded lc] hs(2) show ?thesis by blast
qed

text \<open>
  C4, amended: serialization does not reject a simple tag whose name is the empty
  string. For the collection that \<open>mkvtag_tag_add_simple\<close> builds with the name \<open>""\<close> and a
  value \<open>v\<close> (a C string of fewer than \<open>2^32\<close> bytes) in an album-level tag,
  \<open>mkv_tags_serialize\<close> succeeds when every allocation does, and writes a zero-length
  TagName element \<open>45 A3 80\<close> first in the SimpleTag. What serialization does with a
  simple tag that has no name at all is left open here.
\<close>

theorem C4_empty_name_serialized:
  assumes "0 \<notin> set v" "length v < 2 ^ 32"
  shows "\<exists>vs hs ts. ebml_vint_encode (of_nat (length v)) = Inr vs \<and>
           ebml_vint_encode (of_nat (5 + length vs + length v)) = Inr hs \<and>
           ebml_vint_encode (of_nat (9 + length hs + (5 + length vs + length v))) = Inr ts \<and>
           mkv_tags_serialize
             [mkvtag_tag_add_simple (new_tag\<lparr>target_type := MKVTAG_TARGET_ALBUM\<rparr>) [] (Some v)] buf =
             Inr (buf @ [0x73, 0x73] @ ts @ [0x63, 0xC0, 0x84, 0x68, 0xCA, 0x81, 0x32] @
                  [0x67, 0xC8] @ hs @ [0x45, 0xA3, 0x80, 0x44, 0x87] @ vs @ v)"
proof -
  define targets :: "u8 list" where "targets = [0x63, 0xC0, 0x84, 0x68, 0xCA, 0x81, 0x32]"
  from empty_name_simple_tag[OF assms(2), of targets]
  obtain vs hs where s: "ebml_vint_encode (of_nat (length v)) = Inr vs"
    "ebml_vint_encode (of_nat (5 + length vs + length v)) = Inr hs"
    "length vs \<le> 8" "length hs \<le> 8"
    "serialize_simple_tag (made_simple_tag [] (Some v)) targets =
       Inr (targets @ [0x67, 0xC8] @ hs @ [0x45, 0xA3, 0x80, 0x44, 0x87] @ vs @ v)"
    by blast
  define content where "content = targets @ [0x67, 0xC8] @ hs @ [0x45, 0xA3, 0x80, 0x44, 0x87] @ vs @ v"
  have len: "length content = 9 + length hs + (5 + length vs + length v)"
    by (simp add: content_def targets_def)
  have "length content < 2 ^ 40" using assms(2) s(3,4) unfolding len by simp
  from write_size_ok[OF this, of "buf @ [0x73, 0x73]"]
  obtain ts where ts: "ebml_vint_encode (of_nat (length content)) = Inr ts"
    "write_size (buf @ [0x73, 0x73]) (of_nat (length content)) = Inr ((buf @ [0x73, 0x73]) @ ts)"
    by blast
  define T where "T = mkvtag_tag_add_simple (new_tag\<lparr>target_type := MKVTAG_TARGET_ALBUM\<rparr>) [] (Some v)"
  have st: "serialize_targets T [] = Inr targets"
    using album_targets by (simp add: T_def serialize_targets_def mkvtag_tag_add_simple_def targets_def)
  have sl: "simple_tags T = [made_simple_tag [] (Some v)]"
    by (simp add: T_def mkvtag_tag_add_simple_def new_tag_def)
  have s5: "serialize_simple_tag (made_simple_tag [] (Some v)) targets = Inr content"
    unfolding content_def by (rule s(5))
  have "serialize_tag T buf = Inr ((buf @ [0x73, 0x73]) @ ts @ content)"
    using ts(2)
    by (simp add: serialize_tag_def st sl s5 ebml_write_master_element_header_def write_id_def tag_id)
  then have "mkv_tags_serialize [T] buf = Inr (buf @ [0x73, 0x73] @ ts @ content)"
    by simp
  then have "mkv_tags_serialize
             [mkvtag_tag_add_simple (new_tag\<lparr>target_type := MKVTAG_TARGET_ALBUM\<rparr>) [] (Some v)] buf =
             Inr (buf @ [0x73, 0x73] @ ts @ content)"
    unfolding T_def .
  then have "mkv_tags_serialize
             [mkvtag_tag_add_simple (new_tag\<lparr>target_type := MKVTAG_TARGET_ALBUM\<rparr>) [] (Some v)] buf =
             Inr (buf @ [0x73, 0x73] @ ts @ [0x63, 0xC0, 0x84, 0x68, 0xCA, 0x81, 0x32] @
                  [0x67, 0xC8] @ hs @ [0x45, 0xA3, 0x80, 0x44, 0x87] @ vs @ v)"
    by (simp add: content_def targets_def)
  with s(1,2) ts(1)[unfolded len] show ?thesis by blast
qed

theorem C4_empty_name_serialized_witness:
  "0 \<notin> set [0x58 :: u8] \<and> length [0x58 :: u8] < 2 ^ 32 \<and>
   mkv_tags_serialize
     [mkvtag_tag_add_simple (new_tag\<lparr>target_type := MKVTAG_TARGET_ALBUM\<rparr>) [] (Some [0x58])] [] =
     Inr [0x73, 0x73, 0x91, 0x63, 0xC0, 0x84, 0x68, 0xCA, 0x81, 0x32,
          0x67, 0xC8, 0x87, 0x45, 0xA3, 0x80, 0x44, 0x87, 0x81, 0x58]"
proof -
  have h: "0 \<notin> set [0x58 :: u8]" "length [0x58 :: u8] < 2 ^ 32" by simp_all
  have e: "ebml_vint_encode (of_nat (length [0x58 :: u8])) = Inr [0x81]"
    "ebml_vint_encode (of_nat (5 + length [0x81 :: u8] + length [0x58 :: u8])) = Inr [0x87]"
    "ebml_vint_encode (of_nat (9 + length [0x87 :: u8] + (5 + length [0x81 :: u8] + length [0x58 :: u8]))) = Inr [0x91]"
    by code_simp+
  from C4_empty_name_serialized[OF h, of "[]"] e h show ?thesis by auto
qed

section \<open>Void padding\<close>








section \<open>Writing into a slot\<close>








section \<open>Errors of the write path\<close>

text \<open>
  The error codes that \<open>mkvtag_write_tags\<close> can hand back: its own two guards, the
  serializer's overflow, and what the stream reports in Strategy 3.
\<close>

definition planner_error :: "error \<Rightarrow> bool" where
  "planner_error e =
     (e = ErrNotOpen \<or> e = ErrReadOnly \<or> e = ErrVintOverflow \<or> e = ErrSeekFailed \<or>
      e = ErrTruncated \<or> e = ErrNoSpace)"

lemma build_tags_element_error: "build_tags_element c = Inl e \<Longrightarrow> planner_error e"
  by (auto simp: build_tags_element_def planner_error_def dest!: ok_bind_Inl
      dest: mkv_tags_serialize_error master_header_error[OF _ mkv_ids_nonzero(15)])

lemma file_seek_error: "file_seek h off = (Inl e, h') \<Longrightarrow> planner_error e"
  by (auto simp: file_seek_def planner_error_def split: if_splits)

lemma file_read_error: "file_read h n = (Inl e, h') \<Longrightarrow> planner_error e"
  by (auto simp: file_read_def Let_def planner_error_def split: if_splits)

lemma file_write_error: "file_write h buf = (Inl e, h') \<Longrightarrow> planner_error e"
  by (auto simp: file_write_def Let_def planner_error_def split: if_splits)

lemma update_segment_size_error:
  "update_segment_size ctx n = (Inl e, ctx') \<Longrightarrow> planner_error e"
  by (auto simp: update_segment_size_def Let_def split: prod.splits sum.splits
      dest: file_seek_error file_read_error file_write_error)
    (simp add: planner_error_def)

lemma sync_result_ok: "sync_result ctx = (Inr (), ctx)"
  by (simp add: sync_result_def file_sync_def)


lemma try_append_tags_error:
  assumes a: "try_append_tags ctx tags = (Inl e, ctx')"
  shows "planner_error e"
proof (cases "build_tags_element tags")
  case (Inl err)
  then have "e = err" using a by (simp add: try_append_tags_def Let_def split del: if_split)
  with Inl show ?thesis by (simp add: build_tags_element_error)
next
  case (Inr tb)
  define sce where "sce = (if segment_unknown_size (mkv ctx) then file_size (fhandle ctx)
             else segment_data_offset (mkv ctx) + sint (segment_size (mkv ctx)))"
  define upd where "upd = (if \<not> segment_unknown_size (mkv ctx)
                    then update_segment_size ctx (length tb) else (Inr (), ctx))"
  obtain r1 ctx1 where u: "upd = (r1, ctx1)" by (cases upd)
  note a1 = a[unfolded try_append_tags_def Let_def Inr sum.case sce_def[symmetric] upd_def[symmetric] u prod.case]
  show ?thesis
  proof (cases r1)
    case (Inl e1)
    with a1 have "e = e1" by simp
    moreover have "update_segment_size ctx (length tb) = (Inl e1, ctx1)"
      using u Inl by (simp add: upd_def split: if_splits)
    ultimately show ?thesis by (simp add: update_segment_size_error)
  next
    case r1: (Inr u1)
    note a2 = a1[unfolded r1 sum.case]
    obtain r2 h1 where s: "file_seek (fhandle ctx1) sce = (r2, h1)"
      by (cases "file_seek (fhandle ctx1) sce")
    note a3 = a2[unfolded s prod.case]
    show ?thesis
    proof (cases r2)
      case (Inl e2)
      with a3 have "e = e2" by simp
      with s Inl show ?thesis by (simp add: file_seek_error)
    next
      case r2: (Inr u2)
      note a4 = a3[unfolded r2 sum.case]
      obtain r3 h2 where w: "file_write h1 tb = (r3, h2)" by (cases "file_write h1 tb")
      note a5 = a4[unfolded w prod.case]
      show ?thesis
      proof (cases r3)
        case (Inl e3)
        with a5 have "e = e3" by simp
        with w Inl show ?thesis by (simp add: file_write_error)
      next
        case r3: (Inr u3)
        from a5[unfolded r3 sum.case file_sync_def prod.case] show ?thesis by simp
      qed
    qed
  qed
qed

lemma mkvtag_write_tags_error:
  assumes a: "mkvtag_write_tags ctx tags = (Inl e, ctx')"
  shows "planner_error e"
proof (cases "is_open ctx \<and> is_writable ctx")
  case False
  with a show ?thesis by (auto simp: mkvtag_write_tags_def planner_error_def split: if_splits)
next
  case True
  define c0 where "c0 = ctx\<lparr>cached_tags := None\<rparr>"
  define s1 where "s1 = (if tags_offset (mkv c0) \<ge> 0 then try_replace_existing_tags c0 tags
                    else (Inl ErrNoTags, c0))"
  obtain r1 ctx1 where u1: "s1 = (r1, ctx1)" by (cases s1)
  obtain r2 ctx2 where u2: "try_replace_void ctx1 tags = (r2, ctx2)"
    by (cases "try_replace_void ctx1 tags")
  have "mkvtag_write_tags ctx tags =
          (case r1 of Inr u \<Rightarrow> (Inr (), ctx1)
           | Inl err1 \<Rightarrow> (case r2 of Inr u \<Rightarrow> (Inr (), ctx2)
                          | Inl err2 \<Rightarrow> try_append_tags ctx2 tags))"
    using True u1 u2
    by (simp add: mkvtag_write_tags_def Let_def c0_def[symmetric] s1_def[symmetric] sync_result_ok
        split: sum.splits split del: if_split)
  with a have "try_append_tags ctx2 tags = (Inl e, ctx')"
    by (simp split: sum.splits)
  then show ?thesis by (rule try_append_tags_error)
qed

section \<open>Sample files\<close>

text \<open>
  \<open>parse_tags_of_bytes\<close> reads the header of a Tags element at the start of a buffer and
  parses it, the way \<open>mkvtag_read_tags\<close> does at \<open>tags_offset\<close>.
\<close>

definition parse_tags_of_bytes :: "u8 list \<Rightarrow> error + collection" where
  "parse_tags_of_bytes bs =
     (case ebml_read_element_header \<lparr>fbytes = bs, fpos = 0, fwritable = False\<rparr> of
        (Inl err, h) \<Rightarrow> Inl err
      | (Inr tags_element, h) \<Rightarrow> fst (mkv_tags_parse h tags_element))"

text \<open>
  A WebM file whose Segment holds a Tags element with one Tag at target level 30
  (\<open>TITLE = "Track"\<close>) followed by a 40-byte Void.
\<close>

definition shadowed_title_file :: "u8 list" where
  "shadowed_title_file =
     [0x1A, 0x45, 0xDF, 0xA3, 0x87, 0x42, 0x82, 0x84, 0x77, 0x65, 0x62, 0x6D,
      0x18, 0x53, 0x80, 0x67, 0xCA, 0x12, 0x54, 0xC3, 0x67, 0x9D, 0x73, 0x73,
      0x9A, 0x63, 0xC0, 0x84, 0x68, 0xCA, 0x81, 0x1E, 0x67, 0xC8, 0x90, 0x45,
      0xA3, 0x85, 0x54, 0x49, 0x54, 0x4C, 0x45, 0x44, 0x87, 0x85, 0x54, 0x72,
      0x61, 0x63, 0x6B, 0xEC, 0xA6] @ replicate 38 0"

definition title_name :: "u8 list" where
  "title_name = [0x54, 0x49, 0x54, 0x4C, 0x45]"

definition shadowed_ctx :: mkvtag_context where
  "shadowed_ctx =
     \<lparr>fhandle = \<lparr>fbytes = shadowed_title_file, fpos = 91, fwritable = True\<rparr>,
      mkv = mkv_file_init\<lparr>ebml_version := 1, ebml_read_version := 1,
              doctype := [0x77, 0x65, 0x62, 0x6D], doctype_version := 1,
              doctype_read_version := 1, segment_offset := 12, segment_data_offset := 17,
              segment_size := 74, tags_offset := 17, void_offset := 51, void_size := 40\<rparr>,
      is_open = True, is_writable = True, cached_tags = None\<rparr>"

lemma open_shadowed_title_file:
  "mkvtag_open_rw mkvtag_create shadowed_title_file = (Inr (), shadowed_ctx)"
  by code_simp

text \<open>
  A Tags element with one album-level Tag holding, in this order, the simple tags
  \<open>A = "1"\<close> and \<open>B = "2"\<close>, the latter with the nested simple tags \<open>N1 = "x"\<close> and
  \<open>N2 = "y"\<close>; and the same content as a collection.
\<close>

definition two_simple_tags :: "u8 list" where
  "two_simple_tags =
     [0x12, 0x54, 0xC3, 0x67, 0xB8, 0x73, 0x73, 0xB5, 0x63, 0xC0, 0x84, 0x68,
      0xCA, 0x81, 0x32, 0x67, 0xC8, 0x88, 0x45, 0xA3, 0x81, 0x41, 0x44, 0x87,
      0x81, 0x31, 0x67, 0xC8, 0xA0, 0x45, 0xA3, 0x81, 0x42, 0x44, 0x87, 0x81,
      0x32, 0x67, 0xC8, 0x89, 0x45, 0xA3, 0x82, 0x4E, 0x31, 0x44, 0x87, 0x81,
      0x78, 0x67, 0xC8, 0x89, 0x45, 0xA3, 0x82, 0x4E, 0x32, 0x44, 0x87, 0x81,
      0x79]"

definition ordered_collection :: collection where
  "ordered_collection =
     [\<lparr>target_type = 50, target_type_str = None, track_uids = [], edition_uids = [],
       chapter_uids = [], attachment_uids = [],
       simple_tags =
         [SimpleTag (Some [0x41]) (Some [0x31]) None None 1 [],
          SimpleTag (Some [0x42]) (Some [0x32]) None None 1
            [SimpleTag (Some [0x4E, 0x31]) (Some [0x78]) None None 1 [],
             SimpleTag (Some [0x4E, 0x32]) (Some [0x79]) None None 1 []]]\<rparr>]"

text \<open>
  A WebM file with one album-level Tag that carries an edition, a chapter and an
  attachment UID and the simple tag \<open>COVER\<close>: binary payload \<open>01 02\<close>, \<open>TagDefault = 0\<close>, one
  nested simple tag \<open>N = "x"\<close>.
\<close>

definition rich_file :: "u8 list" where
  "rich_file =
     [0x1A, 0x45, 0xDF, 0xA3, 0x87, 0x42, 0x82, 0x84, 0x77, 0x65, 0x62, 0x6D,
      0x18, 0x53, 0x80, 0x67, 0xBA, 0x12, 0x54, 0xC3, 0x67, 0xB5, 0x73, 0x73,
      0xB2, 0x63, 0xC0, 0x90, 0x68, 0xCA, 0x81, 0x32, 0x63, 0xC9, 0x81, 0x07,
      0x63, 0xC4, 0x81, 0x08, 0x63, 0xC6, 0x81, 0x09, 0x67, 0xC8, 0x9C, 0x45,
      0xA3, 0x85, 0x43, 0x4F, 0x56, 0x45, 0x52, 0x44, 0x84, 0x81, 0x00, 0x44,
      0x85, 0x82, 0x01, 0x02, 0x67, 0xC8, 0x88, 0x45, 0xA3, 0x81, 0x4E, 0x44,
      0x87, 0x81, 0x78]"

text \<open>
  A WebM file with a SeekHead whose Tags entry points past the end of the file, and a
  60-byte Void; \<open>stale_ctx\<close> is the context that opening it gives.
\<close>

definition stale_seek_file :: "u8 list" where
  "stale_seek_file =
     [0x1A, 0x45, 0xDF, 0xA3, 0x87, 0x42, 0x82, 0x84, 0x77, 0x65, 0x62, 0x6D,
      0x18, 0x53, 0x80, 0x67, 0xCF, 0x11, 0x4D, 0x9B, 0x74, 0x8E, 0x4D, 0xBB,
      0x8B, 0x53, 0xAB, 0x84, 0x12, 0x54, 0xC3, 0x67, 0x53, 0xAC, 0x81, 0xC8,
      0xEC, 0xBA] @ replicate 58 0"

definition stale_ctx :: mkvtag_context where
  "stale_ctx =
     \<lparr>fhandle = \<lparr>fbytes = stale_seek_file, fpos = 36, fwritable = True\<rparr>,
      mkv = mkv_file_init\<lparr>ebml_version := 1, ebml_read_version := 1,
              doctype := [0x77, 0x65, 0x62, 0x6D], doctype_version := 1,
              doctype_read_version := 1, segment_offset := 12, segment_data_offset := 17,
              segment_size := 79, seekhead_offset := 17, tags_offset := 217,
              void_offset := 36, void_size := 60\<rparr>,
      is_open = True, is_writable = True, cached_tags = None\<rparr>"

lemma open_stale_seek_file:
  "mkvtag_open_rw mkvtag_create stale_seek_file = (Inr (), stale_ctx)"
  by code_simp

definition title_collection :: collection where
  "title_collection =
     [\<lparr>target_type = 50, target_type_str = None, track_uids = [], edition_uids = [],
       chapter_uids = [], attachment_uids = [],
       simple_tags = [SimpleTag (Some [0x54, 0x49, 0x54, 0x4C, 0x45]) (Some [0x58]) None None 1 []]\<rparr>]"

text \<open>
  A WebM file with a SeekHead holding two Tags entries, the first with the stale position
  99 and the second with the position 33 of the Tags element that follows, and a 20-byte
  Void after that Tags element.
\<close>

definition two_seek_file :: "u8 list" where
  "two_seek_file = [0x1A, 0x45, 0xDF, 0xA3, 0x87, 0x42, 0x82, 0x84, 0x77, 0x65, 0x62, 0x6D,
      0x18, 0x53, 0x80, 0x67, 0xD5, 0x11, 0x4D, 0x9B, 0x74, 0x9C, 0x4D, 0xBB,
      0x8B, 0x53, 0xAB, 0x84, 0x12, 0x54, 0xC3, 0x67, 0x53, 0xAC, 0x81, 0x63,
      0x4D, 0xBB, 0x8B, 0x53, 0xAB, 0x84, 0x12, 0x54, 0xC3, 0x67, 0x53, 0xAC,
      0x81, 0x21, 0x12, 0x54, 0xC3, 0x67, 0x9B, 0x73, 0x73, 0x98, 0x63, 0xC0,
      0x84, 0x68, 0xCA, 0x81, 0x32, 0x67, 0xC8, 0x8E, 0x45, 0xA3, 0x85, 0x54,
      0x49, 0x54, 0x4C, 0x45, 0x44, 0x87, 0x83, 0x4F, 0x6C, 0x64, 0xEC, 0x92] @ replicate 18 0"

section \<open>Set, then read\<close>

text \<open>
  C1. After a successful \<open>mkvtag_set_tag_string(name, value)\<close>, a following
  \<open>mkvtag_read_tag_string(name)\<close> with a large enough buffer returns that value. On
  \<open>shadowed_title_file\<close> it does not: \<open>mkvtag_set_tag_string("TITLE", "X")\<close> succeeds and
  the tags then read back hold \<open>TITLE = "X"\<close> in a new album-level Tag, but
  \<open>mkvtag_read_tag_string("TITLE")\<close> returns \<open>"Track"\<close>, the value of the Tag at level 30
  that comes first. The search of \<open>mkvtag_read_tag_string\<close> does not look at the target
  level, which \<open>mkvtag.h\<close> documents as the album level.
\<close>

theorem C1_read_returns_other_level:
  "(case mkvtag_open_rw mkvtag_create shadowed_title_file of
      (r, ctx) \<Rightarrow>
        (case mkvtag_set_tag_string ctx title_name (Some [0x58]) of
           (r1, ctx1) \<Rightarrow>
             (r, r1, fst (mkvtag_read_tags ctx1), fst (mkvtag_read_tag_string ctx1 title_name 256))))
   = (Inr (), Inr (),
      Inr [\<lparr>target_type = 30, target_type_str = None, track_uids = [], edition_uids = [],
            chapter_uids = [], attachment_uids = [],
            simple_tags = [SimpleTag (Some title_name) (Some [0x54, 0x72, 0x61, 0x63, 0x6B]) None None 1 []]\<rparr>,
           \<lparr>target_type = 50, target_type_str = None, track_uids = [], edition_uids = [],
            chapter_uids = [], attachment_uids = [],
            simple_tags = [SimpleTag (Some title_name) (Some [0x58]) None None 1 []]\<rparr>],
      Inr [0x54, 0x72, 0x61, 0x63, 0x6B])"
  by code_simp

section \<open>Order of parsed simple tags\<close>

text \<open>
  C2. \<open>mkv_tags_parse\<close> keeps the simple tags of a Tag, and the nested simple tags of a
  simple tag, in file order. On \<open>two_simple_tags\<close> it does not: the file has \<open>A\<close> before
  \<open>B\<close> and \<open>N1\<close> before \<open>N2\<close>, the parsed lists have \<open>B\<close> before \<open>A\<close> and \<open>N2\<close> before
  \<open>N1\<close>. \<open>parse_tag\<close> and \<open>parse_simple_tag\<close> put each new node at the head of the list.
\<close>

theorem C2_simple_tags_parsed_in_reverse:
  "parse_tags_of_bytes two_simple_tags =
     Inr [\<lparr>target_type = 50, target_type_str = None, track_uids = [], edition_uids = [],
           chapter_uids = [], attachment_uids = [],
           simple_tags =
             [SimpleTag (Some [0x42]) (Some [0x32]) None None 1
                [SimpleTag (Some [0x4E, 0x32]) (Some [0x79]) None None 1 [],
                 SimpleTag (Some [0x4E, 0x31]) (Some [0x78]) None None 1 []],
              SimpleTag (Some [0x41]) (Some [0x31]) None None 1 []]\<rparr>]"
  by code_simp

text \<open>
  C3. Serializing a collection and parsing the bytes gives the collection back, the
  simple tags in the same order. For \<open>ordered_collection\<close> the round trip gives the simple
  tags, and the nested ones, in reverse order.
\<close>

theorem C3_roundtrip_reverses_simple_tags:
  "(case build_tags_element ordered_collection of
      Inl err \<Rightarrow> Inl err
    | Inr tags_buf \<Rightarrow> parse_tags_of_bytes tags_buf) =
     Inr [\<lparr>target_type = 50, target_type_str = None, track_uids = [], edition_uids = [],
           chapter_uids = [], attachment_uids = [],
           simple_tags =
             [SimpleTag (Some [0x42]) (Some [0x32]) None None 1
                [SimpleTag (Some [0x4E, 0x32]) (Some [0x79]) None None 1 [],
                 SimpleTag (Some [0x4E, 0x31]) (Some [0x78]) None None 1 []],
              SimpleTag (Some [0x41]) (Some [0x31]) None None 1 []]\<rparr>]"
  by code_simp

section \<open>What \<open>mkvtag_set_tag_string\<close> keeps\<close>

text \<open>
  C8. \<open>mkvtag_set_tag_string\<close> keeps every field of every existing tag except the simple
  tag it replaces or removes. On \<open>rich_file\<close>, setting \<open>A = "X"\<close> writes a collection in
  which the Tag has lost its edition, chapter and attachment UIDs, and \<open>COVER\<close> its binary
  payload, its \<open>TagDefault = 0\<close> (now 1) and its nested simple tag; the tags read back from
  the file afterwards show the same loss.
\<close>

theorem C8_copy_drops_fields:
  "(case mkvtag_open_rw mkvtag_create rich_file of
      (r, ctx) \<Rightarrow>
        (case mkvtag_read_tags ctx of
           (existing, ctx0) \<Rightarrow>
             (case mkvtag_set_tag_string ctx [0x41] (Some [0x58]) of
                (r1, ctx1) \<Rightarrow>
                  (r, existing, working_collection existing [0x41] (Some [0x58]), r1,
                   fst (mkvtag_read_tags ctx1)))))
   = (Inr (),
      Inr [\<lparr>target_type = 50, target_type_str = None, track_uids = [], edition_uids = [7],
            chapter_uids = [8], attachment_uids = [9],
            simple_tags =
              [SimpleTag (Some [0x43, 0x4F, 0x56, 0x45, 0x52]) None (Some [0x01, 0x02]) None 0
                 [SimpleTag (Some [0x4E]) (Some [0x78]) None None 1 []]]\<rparr>],
      [\<lparr>target_type = 50, target_type_str = None, track_uids = [], edition_uids = [],
        chapter_uids = [], attachment_uids = [],
        simple_tags =
          [SimpleTag (Some [0x43, 0x4F, 0x56, 0x45, 0x52]) None None None 1 [],
           SimpleTag (Some [0x41]) (Some [0x58]) None None 1 []]\<rparr>],
      Inr (),
      Inr [\<lparr>target_type = 50, target_type_str = None, track_uids = [], edition_uids = [],
            chapter_uids = [], attachment_uids = [],
            simple_tags =
              [SimpleTag (Some [0x41]) (Some [0x58]) None None 1 [],
               SimpleTag (Some [0x43, 0x4F, 0x56, 0x45, 0x52]) None None None 1 []]\<rparr>])"
  by code_simp

section \<open>Falling through the strategies\<close>

text \<open>
  C6, as stated: an error of Strategy 1 other than \<open>NoSpace\<close> is returned to the caller.
  On \<open>stale_seek_file\<close> the recorded Tags offset 217 lies past the 96 bytes of the file,
  Strategy 1 fails with \<open>Truncated\<close>, and \<open>mkvtag_write_tags\<close> goes on to Strategy 2, writes
  the Tags element into the Void at offset 36 and returns success.
\<close>

theorem C6_truncated_falls_through:
  "(case mkvtag_open_rw mkvtag_create stale_seek_file of
      (r, ctx) \<Rightarrow>
        (r, tags_offset (mkv ctx), file_size (fhandle ctx),
         fst (try_replace_existing_tags (ctx\<lparr>cached_tags := None\<rparr>) title_collection),
         case mkvtag_write_tags ctx title_collection of
           (r1, ctx1) \<Rightarrow> (r1, tags_offset (mkv ctx1))))
   = (Inr (), 217, 96, Inl ErrTruncated, Inr (), 36)"
  by code_simp

text \<open>
  A WebM file whose Segment holds only a 60-byte Void, so that no Tags element is
  recorded when it is opened; \<open>void_only_ctx\<close> is the context that opening it gives.
\<close>

definition void_only_file :: "u8 list" where
  "void_only_file =
     [0x1A, 0x45, 0xDF, 0xA3, 0x87, 0x42, 0x82, 0x84, 0x77, 0x65, 0x62, 0x6D,
      0x18, 0x53, 0x80, 0x67, 0xBC, 0xEC, 0xBA] @ replicate 58 0"

definition void_only_ctx :: mkvtag_context where
  "void_only_ctx =
     \<lparr>fhandle = \<lparr>fbytes = void_only_file, fpos = 77, fwritable = True\<rparr>,
      mkv = mkv_file_init\<lparr>ebml_version := 1, ebml_read_version := 1,
              doctype := [0x77, 0x65, 0x62, 0x6D], doctype_version := 1,
              doctype_read_version := 1, segment_offset := 12, segment_data_offset := 17,
              segment_size := 60, void_offset := 17, void_size := 60\<rparr>,
      is_open = True, is_writable = True, cached_tags = None\<rparr>"

lemma open_void_only_file:
  "mkvtag_open_rw mkvtag_create void_only_file = (Inr (), void_only_ctx)"
  by code_simp

text \<open>
  C6, amended: \<open>mkvtag_write_tags\<close> on an open writable context goes through the
  strategies in order and never returns an error of Strategy 1 or 2. When a Tags element
  is recorded and Strategy 1 succeeds, the result is that of \<open>file_sync\<close>. When Strategy 1
  fails, with \<open>NoSpace\<close> or with any other error, or is not attempted because no Tags element
  is recorded, Strategy 2 is tried: the result is that of \<open>file_sync\<close> when Strategy 2
  succeeds, and the result of Strategy 3 when Strategy 2 fails with whatever error.
\<close>

theorem C6_any_failure_falls_through:
  assumes "is_open ctx" "is_writable ctx"
  shows "(\<forall>ctx1. 0 \<le> tags_offset (mkv ctx) \<longrightarrow>
            try_replace_existing_tags (ctx\<lparr>cached_tags := None\<rparr>) tags = (Inr (), ctx1) \<longrightarrow>
            mkvtag_write_tags ctx tags = sync_result ctx1) \<and>
         (\<forall>err1 ctx1. 0 \<le> tags_offset (mkv ctx) \<longrightarrow>
            try_replace_existing_tags (ctx\<lparr>cached_tags := None\<rparr>) tags = (Inl err1, ctx1) \<longrightarrow>
            mkvtag_write_tags ctx tags =
              (case try_replace_void ctx1 tags of
                 (Inr u, ctx2) \<Rightarrow> sync_result ctx2
               | (Inl err2, ctx2) \<Rightarrow> try_append_tags ctx2 tags)) \<and>
         (tags_offset (mkv ctx) < 0 \<longrightarrow>
            mkvtag_write_tags ctx tags =
              (case try_replace_void (ctx\<lparr>cached_tags := None\<rparr>) tags of
                 (Inr u, ctx2) \<Rightarrow> sync_result ctx2
               | (Inl err2, ctx2) \<Rightarrow> try_append_tags ctx2 tags))"
  using assms
  by (simp add: mkvtag_write_tags_def Let_def split: prod.splits sum.splits)

theorem C6_any_failure_falls_through_witness:
  "is_open stale_ctx \<and> is_writable stale_ctx \<and> 0 \<le> tags_offset (mkv stale_ctx) \<and>
   fst (try_replace_existing_tags (stale_ctx\<lparr>cached_tags := None\<rparr>) title_collection)
     = Inl ErrTruncated \<and>
   mkvtag_write_tags stale_ctx title_collection =
     (case try_replace_void
             (snd (try_replace_existing_tags (stale_ctx\<lparr>cached_tags := None\<rparr>) title_collection))
             title_collection of
        (Inr u, ctx2) \<Rightarrow> sync_result ctx2
      | (Inl err2, ctx2) \<Rightarrow> try_append_tags ctx2 title_collection) \<and>
   is_open shadowed_ctx \<and> is_writable shadowed_ctx \<and> 0 \<le> tags_offset (mkv shadowed_ctx) \<and>
   fst (try_replace_existing_tags (shadowed_ctx\<lparr>cached_tags := None\<rparr>) title_collection)
     = Inr () \<and>
   mkvtag_write_tags shadowed_ctx title_collection =
     sync_result (snd (try_replace_existing_tags (shadowed_ctx\<lparr>cached_tags := None\<rparr>) title_collection)) \<and>
   is_open void_only_ctx \<and> is_writable void_only_ctx \<and> tags_offset (mkv void_only_ctx) < 0 \<and>
   mkvtag_write_tags void_only_ctx title_collection =
     (case try_replace_void (void_only_ctx\<lparr>cached_tags := None\<rparr>) title_collection of
        (Inr u, ctx2) \<Rightarrow> sync_result ctx2
      | (Inl err2, ctx2) \<Rightarrow> try_append_tags ctx2 title_collection) \<and>
   fst (mkvtag_write_tags void_only_ctx title_collection) = Inr () \<and>
   tags_offset (mkv (snd (mkvtag_write_tags void_only_ctx title_collection))) = 17"
proof -
  have h: "is_open stale_ctx" "is_writable stale_ctx" "0 \<le> tags_offset (mkv stale_ctx)"
    by (simp_all add: stale_ctx_def)
  have e: "fst (try_replace_existing_tags (stale_ctx\<lparr>cached_tags := None\<rparr>) title_collection)
             = Inl ErrTruncated"
    by code_simp
  then have p: "try_replace_existing_tags (stale_ctx\<lparr>cached_tags := None\<rparr>) title_collection
             = (Inl ErrTruncated,
                snd (try_replace_existing_tags (stale_ctx\<lparr>cached_tags := None\<rparr>) title_collection))"
    by (cases "try_replace_existing_tags (stale_ctx\<lparr>cached_tags := None\<rparr>) title_collection") simp
  have g: "is_open shadowed_ctx" "is_writable shadowed_ctx" "0 \<le> tags_offset (mkv shadowed_ctx)"
    by (simp_all add: shadowed_ctx_def)
  have e1: "fst (try_replace_existing_tags (shadowed_ctx\<lparr>cached_tags := None\<rparr>) title_collection)
             = Inr ()"
    by code_simp
  then have p1: "try_replace_existing_tags (shadowed_ctx\<lparr>cached_tags := None\<rparr>) title_collection
             = (Inr (),
                snd (try_replace_existing_tags (shadowed_ctx\<lparr>cached_tags := None\<rparr>) title_collection))"
    by (cases "try_replace_existing_tags (shadowed_ctx\<lparr>cached_tags := None\<rparr>) title_collection") simp
  have f: "is_open void_only_ctx" "is_writable void_only_ctx" "tags_offset (mkv void_only_ctx) < 0"
    by (simp_all add: void_only_ctx_def mkv_file_init_def)
  have r: "fst (mkvtag_write_tags void_only_ctx title_collection) = Inr ()"
    "tags_offset (mkv (snd (mkvtag_write_tags void_only_ctx title_collection))) = 17"
    by code_simp+
  note a = C6_any_failure_falls_through[OF h(1,2), of title_collection]
  note b = C6_any_failure_falls_through[OF g(1,2), of title_collection]
  note c = C6_any_failure_falls_through[OF f(1,2), of title_collection]
  from a h(3) p have 1: "mkvtag_write_tags stale_ctx title_collection =
     (case try_replace_void
             (snd (try_replace_existing_tags (stale_ctx\<lparr>cached_tags := None\<rparr>) title_collection))
             title_collection of
        (Inr u, ctx2) \<Rightarrow> sync_result ctx2
      | (Inl err2, ctx2) \<Rightarrow> try_append_tags ctx2 title_collection)"
    by blast
  from b g(3) p1 have 2: "mkvtag_write_tags shadowed_ctx title_collection =
     sync_result (snd (try_replace_existing_tags (shadowed_ctx\<lparr>cached_tags := None\<rparr>) title_collection))"
    by blast
  from c f(3) have 3: "mkvtag_write_tags void_only_ctx title_collection =
     (case try_replace_void (void_only_ctx\<lparr>cached_tags := None\<rparr>) title_collection of
        (Inr u, ctx2) \<Rightarrow> sync_result ctx2
      | (Inl err2, ctx2) \<Rightarrow> try_append_tags ctx2 title_collection)"
    by blast
  show ?thesis using h e 1 g e1 2 f 3 r by (intro conjI)
qed

section \<open>Replacing in place\<close>










definition two_seek_ctx :: mkvtag_context where
  "two_seek_ctx =
     \<lparr>fhandle = \<lparr>fbytes = two_seek_file, fpos = 50, fwritable = True\<rparr>,
      mkv = mkv_file_init\<lparr>ebml_version := 1, ebml_read_version := 1,
              doctype := [0x77, 0x65, 0x62, 0x6D], doctype_version := 1,
              doctype_read_version := 1, segment_offset := 12, segment_data_offset := 17,
              segment_size := 85, seekhead_offset := 17, tags_offset := 50,
              void_offset := 82, void_size := 20\<rparr>,
      is_open = True, is_writable = True, cached_tags = None\<rparr>"

lemma open_two_seek_file:
  "mkvtag_open_rw mkvtag_create two_seek_file = (Inr (), two_seek_ctx)"
  by code_simp




section \<open>Removing a tag\<close>

text \<open>
  C10. On an open writable file \<open>mkvtag_remove_tag(name)\<close> is
  \<open>mkvtag_set_tag_string(name, NULL)\<close>: whether or not a simple tag of that name exists, it
  builds the working collection from what \<open>mkvtag_read_tags\<close> gives, writes it through
  \<open>mkvtag_write_tags\<close> and returns that result, which is never \<open>TagNotFound\<close>.
\<close>

theorem C10_remove_never_not_found:
  assumes "is_open ctx" "is_writable ctx"
  shows "mkvtag_remove_tag ctx nm = mkvtag_set_tag_string ctx nm None \<and>
         mkvtag_remove_tag ctx nm =
           mkvtag_write_tags (snd (mkvtag_read_tags ctx))
             (working_collection (fst (mkvtag_read_tags ctx)) nm None) \<and>
         fst (mkvtag_remove_tag ctx nm) \<noteq> Inl ErrTagNotFound"
proof -
  have a: "mkvtag_remove_tag ctx nm =
           mkvtag_write_tags (snd (mkvtag_read_tags ctx))
             (working_collection (fst (mkvtag_read_tags ctx)) nm None)"
    using assms by (simp add: mkvtag_remove_tag_def mkvtag_set_tag_string_def split: prod.splits)
  have "fst (mkvtag_write_tags c t) \<noteq> Inl ErrTagNotFound" for c t
    using mkvtag_write_tags_error[of c t ErrTagNotFound "snd (mkvtag_write_tags c t)"]
    by (cases "mkvtag_write_tags c t") (auto simp: planner_error_def)
  with a show ?thesis by (simp add: mkvtag_remove_tag_def)
qed

theorem C10_remove_never_not_found_witness:
  "is_open shadowed_ctx \<and> is_writable shadowed_ctx \<and>
   mkvtag_remove_tag shadowed_ctx [0x41] = mkvtag_set_tag_string shadowed_ctx [0x41] None \<and>
   mkvtag_remove_tag shadowed_ctx [0x41] =
     mkvtag_write_tags (snd (mkvtag_read_tags shadowed_ctx))
       (working_collection (fst (mkvtag_read_tags shadowed_ctx)) [0x41] None) \<and>
   fst (mkvtag_remove_tag shadowed_ctx [0x41]) \<noteq> Inl ErrTagNotFound \<and>
   fst (mkvtag_read_tag_string shadowed_ctx [0x41] 256) = Inl ErrTagNotFound"
proof -
  have h: "is_open shadowed_ctx" "is_writable shadowed_ctx" by (simp_all add: shadowed_ctx_def)
  have r: "fst (mkvtag_read_tag_string shadowed_ctx [0x41] 256) = Inl ErrTagNotFound" by code_simp
  from C10_remove_never_not_found[OF h, of "[0x41]"] h r show ?thesis by blast
qed

end
